theory Spec2Isabelle
  imports Main "HOL-Library.Word" "HOL-Library.Sublist" "HOL-Library.Multiset"
begin

unbundle bit_operations_syntax

section \<open>JavaScript strings and arrays\<close>

text \<open>
  A JavaScript string is modelled as a \<^typ>\<open>string\<close>: a list of code units, each below 256
  (the Latin-1 range). \<open>length\<close> is therefore the \<open>.length\<close> of the source, on that range.
  The results of the tools are modelled as the objects handed to \<open>JSON.stringify\<close>, without
  the human-readable \<open>message\<close> and \<open>hint\<close> texts.
\<close>

definition newline :: char where
  "newline = CHR 0x0A"

text \<open>\<open>str.split(sep)\<close> for a separator that is one character out of a class: the pieces
  between the separators, \<open>['']\<close> for the empty string.\<close>

fun split_on :: "(char \<Rightarrow> bool) \<Rightarrow> string \<Rightarrow> string list" where
  "split_on P [] = [[]]"
| "split_on P (c # cs) =
     (if P c then [] # split_on P cs
      else (case split_on P cs of
              [] \<Rightarrow> [[c]]
            | piece # pieces \<Rightarrow> (c # piece) # pieces))"

definition split_lines :: "string \<Rightarrow> string list" where
  "split_lines s = split_on (\<lambda>c. c = newline) s"

text \<open>\<open>arr.join(sep)\<close>.\<close>

fun join :: "string \<Rightarrow> string list \<Rightarrow> string" where
  "join sep [] = []"
| "join sep [x] = x"
| "join sep (x # y # ys) = x @ sep @ join sep (y # ys)"

definition join_lines :: "string list \<Rightarrow> string" where
  "join_lines xs = join [newline] xs"

text \<open>\<open>arr.slice(start, end)\<close> and \<open>str.slice(start, end)\<close>: a negative index counts from the
  end, both indices are clamped to the length.\<close>

definition slice_index :: "nat \<Rightarrow> int \<Rightarrow> nat" where
  "slice_index len i = (if i < 0 then nat (max 0 (int len + i)) else min (nat i) len)"

definition slice :: "'a list \<Rightarrow> int \<Rightarrow> int \<Rightarrow> 'a list" where
  "slice xs start end =
     (let from = slice_index (length xs) start; to = slice_index (length xs) end
      in take (to - from) (drop from xs))"

definition slice_from :: "'a list \<Rightarrow> int \<Rightarrow> 'a list" where
  "slice_from xs start = drop (slice_index (length xs) start) xs"

text \<open>\<open>str.trim()\<close>: the white space and line terminators of ECMAScript below 256.\<close>

definition is_whitespace :: "char \<Rightarrow> bool" where
  "is_whitespace c = (of_char c \<in> {9, 10, 11, 12, 13, 32, 160 :: nat})"

definition trim :: "string \<Rightarrow> string" where
  "trim s = rev (dropWhile is_whitespace (rev (dropWhile is_whitespace s)))"

definition is_digit :: "char \<Rightarrow> bool" where
  "is_digit c = (48 \<le> (of_char c :: nat) \<and> (of_char c :: nat) \<le> 57)"

definition is_letter :: "char \<Rightarrow> bool" where
  "is_letter c = (let n = (of_char c :: nat) in (65 \<le> n \<and> n \<le> 90) \<or> (97 \<le> n \<and> n \<le> 122))"

text \<open>\<open>String(n)\<close> for a natural number, and \<open>parseInt(s, 10)\<close> on a string of digits
  (as an unbounded natural: the rounding of numbers above \<open>2^53\<close> is not modelled).\<close>

definition digit_char :: "nat \<Rightarrow> char" where
  "digit_char d = char_of (48 + d)"

fun string_of_nat :: "nat \<Rightarrow> string" where
  "string_of_nat n = (if n < 10 then [digit_char n] else string_of_nat (n div 10) @ [digit_char (n mod 10)])"

declare string_of_nat.simps [simp del]

definition parseInt :: "string \<Rightarrow> nat" where
  "parseInt s = foldl (\<lambda>acc c. 10 * acc + (of_char c - 48)) 0 s"

text \<open>\<open>str.padStart(width, ' ')\<close>.\<close>

definition padStart :: "nat \<Rightarrow> string \<Rightarrow> string" where
  "padStart width s = replicate (width - length s) CHR '' '' @ s"

section \<open>Checksums (checksum.js)\<close>

subsection \<open>SHA-256 of node:crypto (FIPS 180-4)\<close>

type_synonym byte = "8 word"
type_synonym w32 = "32 word"

text \<open>\<open>update(content, 'utf8')\<close>: the UTF-8 bytes of a string of code units below 256.\<close>

definition utf8_char :: "char \<Rightarrow> byte list" where
  "utf8_char c =
     (let n = (of_char c :: nat)
      in if n < 128 then [of_nat n] else [of_nat (192 + n div 64), of_nat (128 + n mod 64)])"

definition utf8_encode :: "string \<Rightarrow> byte list" where
  "utf8_encode s = concat (map utf8_char s)"

text \<open>The constants of the standard: the first 32 bits of the fractional parts of the cube
  roots of the first 64 primes, and of the square roots of the first 8 primes for the
  initial state. \<open>int_root\<close> is the integer part of a root, found by bisection.\<close>

definition is_prime :: "nat \<Rightarrow> bool" where
  "is_prime n = (1 < n \<and> list_all (\<lambda>d. n mod d \<noteq> 0) [2..<n])"

definition first_primes :: "nat list" where
  "first_primes = filter is_prime [2..<312]"

fun bisect_root :: "nat \<Rightarrow> nat \<Rightarrow> int \<Rightarrow> int \<Rightarrow> int \<Rightarrow> int" where
  "bisect_root 0 k target lo hi = lo"
| "bisect_root (Suc fuel) k target lo hi =
     (if hi - lo \<le> 1 then lo
      else
        let mid = (lo + hi) div 2
        in if mid ^ k \<le> target then bisect_root fuel k target mid hi
           else bisect_root fuel k target lo mid)"

definition root_bits :: "nat \<Rightarrow> nat \<Rightarrow> w32" where
  "root_bits k p = word_of_int (bisect_root 64 k (int p * 2 ^ (32 * k)) 0 ((int p + 1) * 2 ^ 32))"

definition sha_K :: "w32 list" where
  "sha_K = map (root_bits 3) first_primes"

type_synonym sha_state = "w32 \<times> w32 \<times> w32 \<times> w32 \<times> w32 \<times> w32 \<times> w32 \<times> w32"

definition sha_H0 :: sha_state where
  "sha_H0 =
     (case map (root_bits 2) (take 8 first_primes) of
        [a, b, c, d, e, f, g, h] \<Rightarrow> (a, b, c, d, e, f, g, h)
      | _ \<Rightarrow> (0, 0, 0, 0, 0, 0, 0, 0))"

definition Ch :: "w32 \<Rightarrow> w32 \<Rightarrow> w32 \<Rightarrow> w32" where
  "Ch x y z = (x AND y) XOR (NOT x AND z)"

definition Maj :: "w32 \<Rightarrow> w32 \<Rightarrow> w32 \<Rightarrow> w32" where
  "Maj x y z = (x AND y) XOR (x AND z) XOR (y AND z)"

definition big_sigma0 :: "w32 \<Rightarrow> w32" where
  "big_sigma0 x = word_rotr 2 x XOR word_rotr 13 x XOR word_rotr 22 x"

definition big_sigma1 :: "w32 \<Rightarrow> w32" where
  "big_sigma1 x = word_rotr 6 x XOR word_rotr 11 x XOR word_rotr 25 x"

definition small_sigma0 :: "w32 \<Rightarrow> w32" where
  "small_sigma0 x = word_rotr 7 x XOR word_rotr 18 x XOR drop_bit 3 x"

definition small_sigma1 :: "w32 \<Rightarrow> w32" where
  "small_sigma1 x = word_rotr 17 x XOR word_rotr 19 x XOR drop_bit 10 x"

text \<open>Padding: the bit 1, zeros up to 56 modulo 64 bytes, the bit length on 64 bits.\<close>

definition be_bytes :: "nat \<Rightarrow> nat \<Rightarrow> byte list" where
  "be_bytes k n = map (\<lambda>i. ucast (drop_bit (8 * (k - 1 - i)) (of_nat n :: 64 word))) [0..<k]"

definition sha_pad :: "byte list \<Rightarrow> byte list" where
  "sha_pad m =
     m @ [0x80] @ replicate ((119 - length m mod 64) mod 64) 0 @ be_bytes 8 (8 * length m)"

definition be_word :: "byte list \<Rightarrow> w32" where
  "be_word bs = foldl (\<lambda>acc b. push_bit 8 acc OR ucast b) 0 bs"

fun chunks :: "nat \<Rightarrow> nat \<Rightarrow> 'a list \<Rightarrow> 'a list list" where
  "chunks 0 k xs = []"
| "chunks (Suc n) k xs = take k xs # chunks n k (drop k xs)"

definition block_words :: "byte list \<Rightarrow> w32 list" where
  "block_words block = map be_word (chunks 16 4 block)"

fun sha_schedule :: "nat \<Rightarrow> w32 list \<Rightarrow> w32 list" where
  "sha_schedule 0 w = w"
| "sha_schedule (Suc n) w =
     (let t = length w
      in sha_schedule n
           (w @ [small_sigma1 (w ! (t - 2)) + w ! (t - 7) + small_sigma0 (w ! (t - 15)) + w ! (t - 16)]))"

definition sha_round :: "w32 \<times> w32 \<Rightarrow> sha_state \<Rightarrow> sha_state" where
  "sha_round kw st =
     (case st of (a, b, c, d, e, f, g, h) \<Rightarrow>
        let t1 = h + big_sigma1 e + Ch e f g + fst kw + snd kw;
            t2 = big_sigma0 a + Maj a b c
        in (t1 + t2, a, b, c, d + t1, e, f, g))"

definition sha_add :: "sha_state \<Rightarrow> sha_state \<Rightarrow> sha_state" where
  "sha_add s t =
     (case s of (a, b, c, d, e, f, g, h) \<Rightarrow>
      case t of (a', b', c', d', e', f', g', h') \<Rightarrow>
        (a + a', b + b', c + c', d + d', e + e', f + f', g + g', h + h'))"

definition sha_compress :: "byte list \<Rightarrow> sha_state \<Rightarrow> sha_state" where
  "sha_compress block st =
     sha_add st (fold sha_round (zip sha_K (sha_schedule 48 (block_words block))) st)"

definition sha256 :: "byte list \<Rightarrow> sha_state" where
  "sha256 m = (let p = sha_pad m in fold sha_compress (chunks (length p div 64) 64 p) sha_H0)"

text \<open>\<open>digest('hex')\<close>: eight lower-case hexadecimal digits for each word of the state.\<close>

definition hex_digit :: "nat \<Rightarrow> char" where
  "hex_digit n = ''0123456789abcdef'' ! (n mod 16)"

definition hex_word :: "w32 \<Rightarrow> string" where
  "hex_word w = map (\<lambda>i. hex_digit (unat (drop_bit (4 * (7 - i)) w AND 15))) [0..<8]"

definition hex_digest :: "sha_state \<Rightarrow> string" where
  "hex_digest st =
     (case st of (a, b, c, d, e, f, g, h) \<Rightarrow> concat (map hex_word [a, b, c, d, e, f, g, h]))"

subsection \<open>generateChecksum, verifyChecksum\<close>

definition generateChecksum :: "string \<Rightarrow> string" where
  "generateChecksum content = slice (hex_digest (sha256 (utf8_encode content))) 0 12"

definition verifyChecksum :: "string \<Rightarrow> string \<Rightarrow> bool" where
  "verifyChecksum content expected = (generateChecksum content = expected)"

definition is_hex_char :: "char \<Rightarrow> bool" where
  "is_hex_char c = (c \<in> set ''0123456789abcdef'')"

section \<open>Path resolution (paths.js)\<close>

subsection \<open>node:path on POSIX\<close>

text \<open>\<open>normalizeString\<close> of node:path: empty and \<open>.\<close> segments are dropped, \<open>..\<close> removes the
  segment before it; above the start it is kept only when \<open>allowAboveRoot\<close>. The accumulator
  holds the segments kept so far, last first.\<close>

fun normalize_segments :: "bool \<Rightarrow> string list \<Rightarrow> string list \<Rightarrow> string list" where
  "normalize_segments allow acc [] = rev acc"
| "normalize_segments allow acc (seg # segs) =
     (if seg = [] \<or> seg = ''.'' then normalize_segments allow acc segs
      else if seg = ''..'' then
        (case acc of
           [] \<Rightarrow> normalize_segments allow (if allow then [''..''] else []) segs
         | seg1 # rest \<Rightarrow>
             if seg1 = ''..'' then normalize_segments allow (''..'' # acc) segs
             else normalize_segments allow rest segs)
      else normalize_segments allow (seg # acc) segs)"

definition is_slash :: "char \<Rightarrow> bool" where
  "is_slash c = (c = CHR ''/'')"

definition path_sep :: string where
  "path_sep = ''/''"

definition normalizeString :: "string \<Rightarrow> bool \<Rightarrow> string" where
  "normalizeString p allow = join ''/'' (normalize_segments allow [] (split_on is_slash p))"

definition startsWith :: "string \<Rightarrow> string \<Rightarrow> bool" where
  "startsWith s pre = prefix pre s"

definition endsWith :: "string \<Rightarrow> string \<Rightarrow> bool" where
  "endsWith s suf = suffix suf s"

text \<open>\<open>path.resolve(...args)\<close>: the arguments are prepended from the right until one is
  absolute, the working directory of the process coming last.\<close>

fun resolve_args :: "string list \<Rightarrow> string \<Rightarrow> string \<times> bool" where
  "resolve_args [] resolved = (resolved, False)"
| "resolve_args (p # ps) resolved =
     (if p = [] then resolve_args ps resolved
      else if startsWith p ''/'' then (p @ ''/'' @ resolved, True)
      else resolve_args ps (p @ ''/'' @ resolved))"

definition path_resolve :: "string \<Rightarrow> string list \<Rightarrow> string" where
  "path_resolve cwd args =
     (case resolve_args (rev (cwd # args)) [] of
        (resolvedPath, resolvedAbsolute) \<Rightarrow>
          let normalized = normalizeString resolvedPath (\<not> resolvedAbsolute)
          in if resolvedAbsolute then ''/'' @ normalized
             else if normalized \<noteq> [] then normalized else ''.'')"

text \<open>\<open>path.normalize\<close> and \<open>path.join\<close>.\<close>

definition path_normalize :: "string \<Rightarrow> string" where
  "path_normalize p =
     (if p = [] then ''.''
      else
        let isAbsolute = startsWith p ''/'';
            trailingSeparator = endsWith p ''/'';
            normalized = normalizeString p (\<not> isAbsolute)
        in if normalized = [] then
             (if isAbsolute then ''/'' else if trailingSeparator then ''./'' else ''.'')
           else
             (if isAbsolute then ''/'' else []) @ normalized @ (if trailingSeparator then ''/'' else []))"

definition path_join :: "string list \<Rightarrow> string" where
  "path_join args =
     (let parts = filter (\<lambda>a. a \<noteq> []) args
      in if parts = [] then ''.'' else path_normalize (join ''/'' parts))"

text \<open>\<open>path.basename\<close>, \<open>path.dirname\<close> and \<open>path.extname\<close>.\<close>

definition path_basename :: "string \<Rightarrow> string" where
  "path_basename p =
     (case filter (\<lambda>seg. seg \<noteq> []) (split_on is_slash p) of
        [] \<Rightarrow> []
      | segs \<Rightarrow> last segs)"

definition path_dirname :: "string \<Rightarrow> string" where
  "path_dirname p =
     (if p = [] then ''.''
      else
        let hasRoot = startsWith p ''/'';
            ends = filter (\<lambda>i. p ! i = CHR ''/'' \<and> list_ex (\<lambda>j. p ! j \<noteq> CHR ''/'') [Suc i..<length p])
                     (rev [1..<length p])
        in case ends of
             [] \<Rightarrow> if hasRoot then ''/'' else ''.''
           | end # _ \<Rightarrow> if hasRoot \<and> end = 1 then ''//'' else take end p)"

definition last_dot :: "string \<Rightarrow> nat option" where
  "last_dot b =
     (case filter (\<lambda>i. b ! i = CHR ''.'') (rev [0..<length b]) of
        [] \<Rightarrow> None
      | i # _ \<Rightarrow> Some i)"

definition path_extname :: "string \<Rightarrow> string" where
  "path_extname p =
     (let b = path_basename p
      in case last_dot b of
           None \<Rightarrow> []
         | Some i \<Rightarrow> if i = 0 \<or> b = ''..'' then [] else drop i b)"

subsection \<open>resolvePath\<close>

record config =
  workspace_root :: string
  process_cwd :: string

definition is_separator :: "char \<Rightarrow> bool" where
  "is_separator c = (c = CHR ''/'' \<or> c = CHR 0x5C)"

definition hasEscapeAttempt :: "string \<Rightarrow> bool" where
  "hasEscapeAttempt pathStr = (''..'' \<in> set (split_on is_separator pathStr))"

definition isAbsolutePath :: "string \<Rightarrow> bool" where
  "isAbsolutePath pathStr =
     (if startsWith pathStr ''/'' then True
      else (case pathStr of
              drive # colon # sep # _ \<Rightarrow> is_letter drive \<and> colon = CHR '':'' \<and> is_separator sep
            | _ \<Rightarrow> False))"

definition getWorkspaceRoot :: "config \<Rightarrow> string" where
  "getWorkspaceRoot cfg = workspace_root cfg"

record resolved_path =
  absolutePath :: string
  relativePath :: string
  virtualPath :: string

datatype path_error = AbsoluteNotAllowed | DotDotSegment | OutsideWorkspace

definition backslashes_to_slashes :: "string \<Rightarrow> string" where
  "backslashes_to_slashes s = map (\<lambda>c. if c = CHR 0x5C then CHR ''/'' else c) s"

definition resolvePath :: "config \<Rightarrow> string \<Rightarrow> path_error + resolved_path" where
  "resolvePath cfg vpath =
     (let trimmed = trim vpath;
          root = getWorkspaceRoot cfg
      in if isAbsolutePath trimmed then Inl AbsoluteNotAllowed
         else if hasEscapeAttempt trimmed then Inl DotDotSegment
         else if trimmed = ''.'' \<or> trimmed = [] \<or> trimmed = ''/'' then
           Inr \<lparr>absolutePath = root, relativePath = ''.'', virtualPath = ''.''\<rparr>
         else
           let normalized = dropWhile is_slash (backslashes_to_slashes trimmed);
               absolute = path_resolve (process_cwd cfg) [root, normalized]
           in if \<not> startsWith absolute (root @ path_sep) \<and> absolute \<noteq> root
              then Inl OutsideWorkspace
              else Inr \<lparr>absolutePath = absolute, relativePath = normalized,
                        virtualPath = normalized\<rparr>)"

definition toVirtualPath :: "config \<Rightarrow> string \<Rightarrow> string option" where
  "toVirtualPath cfg absolute =
     (let root = getWorkspaceRoot cfg
      in if absolute = root then Some ''.''
         else if startsWith absolute (root @ path_sep) then Some (slice_from absolute (int (length root) + 1))
         else None)"

section \<open>Line editing (lines.js)\<close>

record line_range =
  range_start :: nat
  range_end :: nat

text \<open>\<open>parseLineRange\<close>: \<open>/^\d+$/\<close> gives a single line, \<open>/^(\d+)-(\d+)$/\<close> a range whose
  start is not above its end; anything else is \<open>null\<close>.\<close>

definition all_digits :: "string \<Rightarrow> bool" where
  "all_digits s = (s \<noteq> [] \<and> list_all is_digit s)"

definition parseLineRange :: "string \<Rightarrow> line_range option" where
  "parseLineRange rng =
     (let trimmed = trim rng
      in if all_digits trimmed then
           Some \<lparr>range_start = parseInt trimmed, range_end = parseInt trimmed\<rparr>
         else
           (let first = takeWhile is_digit trimmed;
                rest = dropWhile is_digit trimmed
            in case rest of
                 [] \<Rightarrow> None
               | dash # second \<Rightarrow>
                   if dash = CHR ''-'' \<and> all_digits first \<and> all_digits second
                      \<and> parseInt first \<le> parseInt second
                   then Some \<lparr>range_start = parseInt first, range_end = parseInt second\<rparr>
                   else None))"

definition addLineNumbers :: "string \<Rightarrow> nat \<Rightarrow> string" where
  "addLineNumbers content startLine =
     (let lines = split_lines content;
          maxLineNum = startLine + length lines - 1;
          width = length (string_of_nat maxLineNum)
      in join_lines
           (map (\<lambda>(i, line). padStart width (string_of_nat (startLine + i)) @ ''|'' @ line)
              (zip [0..<length lines] lines)))"

record extracted =
  ex_text :: string
  actualStart :: nat
  actualEnd :: nat

definition extractLines :: "string \<Rightarrow> nat \<Rightarrow> nat \<Rightarrow> extracted" where
  "extractLines content start end =
     (let lines = split_lines content;
          actualStart = max 1 start;
          actualEnd = min (length lines) end
      in \<lparr>ex_text = join_lines (slice lines (int actualStart - 1) (int actualEnd)),
          actualStart = actualStart, actualEnd = actualEnd\<rparr>)"

definition replaceLines :: "string \<Rightarrow> int \<Rightarrow> int \<Rightarrow> string \<Rightarrow> string" where
  "replaceLines content start end replacement =
     (let lines = split_lines content;
          before = slice lines 0 (start - 1);
          after = slice_from lines end
      in join_lines (before @ [replacement] @ after))"

text \<open>\<open>lines.splice(index, 0, insertion)\<close> for an index that is not negative.\<close>

definition splice_in :: "'a list \<Rightarrow> nat \<Rightarrow> 'a \<Rightarrow> 'a list" where
  "splice_in xs index x = take index xs @ [x] @ drop index xs"

definition insertBeforeLine :: "string \<Rightarrow> int \<Rightarrow> string \<Rightarrow> string" where
  "insertBeforeLine content line insertion =
     (let lines = split_lines content;
          insertIndex = nat (max 0 (line - 1))
      in join_lines (splice_in lines insertIndex insertion))"

definition insertAfterLine :: "string \<Rightarrow> int \<Rightarrow> string \<Rightarrow> string" where
  "insertAfterLine content line insertion =
     (let lines = split_lines content;
          insertIndex = min (int (length lines)) line
      in join_lines
           (if insertIndex < 0 then splice_in lines (slice_index (length lines) insertIndex) insertion
            else splice_in lines (nat insertIndex) insertion))"

definition deleteLines :: "string \<Rightarrow> int \<Rightarrow> int \<Rightarrow> string" where
  "deleteLines content start end =
     (let lines = split_lines content;
          before = slice lines 0 (start - 1);
          after = slice_from lines end
      in join_lines (before @ after))"

section \<open>File types (filetypes.js)\<close>

definition toLowerCase_char :: "char \<Rightarrow> char" where
  "toLowerCase_char c =
     (let n = (of_char c :: nat)
      in if (65 \<le> n \<and> n \<le> 90) \<or> (192 \<le> n \<and> n \<le> 222 \<and> n \<noteq> 215) then char_of (n + 32) else c)"

definition toLowerCase :: "string \<Rightarrow> string" where
  "toLowerCase s = map toLowerCase_char s"

definition TEXT_EXTENSIONS :: "string list" where
  "TEXT_EXTENSIONS =
     [''.md'', ''.markdown'', ''.mdx'', ''.txt'', ''.text'', ''.rst'', ''.adoc'',
      ''.ts'', ''.tsx'', ''.mts'', ''.cts'', ''.js'', ''.jsx'', ''.mjs'', ''.cjs'',
      ''.py'', ''.pyw'', ''.pyi'', ''.rs'', ''.go'', ''.java'',
      ''.c'', ''.h'', ''.cpp'', ''.cc'', ''.cxx'', ''.hpp'', ''.hh'', ''.hxx'',
      ''.cs'', ''.rb'', ''.php'', ''.swift'', ''.kt'', ''.kts'', ''.scala'',
      ''.r'', ''.R'', ''.lua'', ''.pl'', ''.pm'', ''.sh'', ''.bash'', ''.zsh'',
      ''.html'', ''.htm'', ''.css'', ''.scss'', ''.sass'', ''.less'',
      ''.json'', ''.jsonc'', ''.yaml'', ''.yml'', ''.xml'', ''.toml'', ''.ini'', ''.cfg'', ''.env'',
      ''.gitignore'', ''.ignore'', ''.editorconfig'', ''.sql'', ''.graphql'', ''.gql'']"

definition isTextFile :: "string \<Rightarrow> bool" where
  "isTextFile filepath =
     (let ext = toLowerCase (path_extname filepath);
          basename = path_basename filepath
      in if ext \<in> set TEXT_EXTENSIONS then True
         else if basename \<in> set [''Makefile'', ''Dockerfile'', ''Jenkinsfile'', ''Vagrantfile'',
                                   ''LICENSE'', ''README'', ''CHANGELOG'']
         then True
         else if startsWith basename ''.'' \<and> ext = [] then True
         else False)"

section \<open>The file system (node:fs/promises)\<close>

text \<open>
  The file system is a tree of directories, with their entries in the order \<open>readdir\<close>
  lists them. A regular file holds its text; \<open>NoAccess\<close> is a regular file that the process
  may neither read nor write. A rejected promise is the error it carries.
\<close>

datatype errno = ENOENT | ENOTDIR | EISDIR | EEXIST | EACCES

datatype node = File string | NoAccess | Dir "(string \<times> node) list"

datatype kind = IsFile | IsDirectory

fun lookup_node :: "node \<Rightarrow> string list \<Rightarrow> errno + node"
  and lookup_entries :: "(string \<times> node) list \<Rightarrow> string \<Rightarrow> string list \<Rightarrow> errno + node" where
  "lookup_node n [] = Inr n"
| "lookup_node (File c) (s # ss) = Inl ENOTDIR"
| "lookup_node NoAccess (s # ss) = Inl ENOTDIR"
| "lookup_node (Dir es) (s # ss) = lookup_entries es s ss"
| "lookup_entries [] s ss = Inl ENOENT"
| "lookup_entries (e # es) s ss =
     (if fst e = s then lookup_node (snd e) ss else lookup_entries es s ss)"

fun write_node :: "node \<Rightarrow> string list \<Rightarrow> string \<Rightarrow> errno + node"
  and write_entries ::
    "(string \<times> node) list \<Rightarrow> string \<Rightarrow> string list \<Rightarrow> string \<Rightarrow> errno + (string \<times> node) list" where
  "write_node (File old) [] c = Inr (File c)"
| "write_node NoAccess [] c = Inl EACCES"
| "write_node (Dir es) [] c = Inl EISDIR"
| "write_node (File old) (s # ss) c = Inl ENOTDIR"
| "write_node NoAccess (s # ss) c = Inl ENOTDIR"
| "write_node (Dir es) (s # ss) c =
     (case write_entries es s ss c of Inl e \<Rightarrow> Inl e | Inr es' \<Rightarrow> Inr (Dir es'))"
| "write_entries [] s ss c = (if ss = [] then Inr [(s, File c)] else Inl ENOENT)"
| "write_entries (e # es) s ss c =
     (if fst e = s then
        (case write_node (snd e) ss c of Inl err \<Rightarrow> Inl err | Inr n' \<Rightarrow> Inr ((s, n') # es))
      else
        (case write_entries es s ss c of Inl err \<Rightarrow> Inl err | Inr es' \<Rightarrow> Inr (e # es')))"

fun new_dirs :: "string list \<Rightarrow> node" where
  "new_dirs [] = Dir []"
| "new_dirs (s # ss) = Dir [(s, new_dirs ss)]"

fun mkdir_node :: "node \<Rightarrow> string list \<Rightarrow> errno + node"
  and mkdir_entries ::
    "(string \<times> node) list \<Rightarrow> string \<Rightarrow> string list \<Rightarrow> errno + (string \<times> node) list" where
  "mkdir_node (Dir es) [] = Inr (Dir es)"
| "mkdir_node (File c) [] = Inl EEXIST"
| "mkdir_node NoAccess [] = Inl EEXIST"
| "mkdir_node (File c) (s # ss) = Inl ENOTDIR"
| "mkdir_node NoAccess (s # ss) = Inl ENOTDIR"
| "mkdir_node (Dir es) (s # ss) =
     (case mkdir_entries es s ss of Inl e \<Rightarrow> Inl e | Inr es' \<Rightarrow> Inr (Dir es'))"
| "mkdir_entries [] s ss = Inr [(s, new_dirs ss)]"
| "mkdir_entries (e # es) s ss =
     (if fst e = s then
        (case mkdir_node (snd e) ss of Inl err \<Rightarrow> Inl err | Inr n' \<Rightarrow> Inr ((s, n') # es))
      else
        (case mkdir_entries es s ss of Inl err \<Rightarrow> Inl err | Inr es' \<Rightarrow> Inr (e # es')))"

fun unlink_node :: "node \<Rightarrow> string list \<Rightarrow> errno + node"
  and unlink_entries ::
    "(string \<times> node) list \<Rightarrow> string \<Rightarrow> string list \<Rightarrow> errno + (string \<times> node) list" where
  "unlink_node n [] = Inl EISDIR"
| "unlink_node (File c) (s # ss) = Inl ENOTDIR"
| "unlink_node NoAccess (s # ss) = Inl ENOTDIR"
| "unlink_node (Dir es) (s # ss) =
     (case unlink_entries es s ss of Inl e \<Rightarrow> Inl e | Inr es' \<Rightarrow> Inr (Dir es'))"
| "unlink_entries [] s ss = Inl ENOENT"
| "unlink_entries (e # es) s ss =
     (if fst e = s then
        (if ss = [] then (case snd e of Dir sub \<Rightarrow> Inl EISDIR | _ \<Rightarrow> Inr es)
         else (case unlink_node (snd e) ss of Inl err \<Rightarrow> Inl err | Inr n' \<Rightarrow> Inr ((s, n') # es)))
      else
        (case unlink_entries es s ss of Inl err \<Rightarrow> Inl err | Inr es' \<Rightarrow> Inr (e # es')))"

text \<open>The segments of a path handed to the file system; a relative path starts at the
  working directory.\<close>

definition fs_segments :: "config \<Rightarrow> string \<Rightarrow> string list" where
  "fs_segments cfg p =
     filter (\<lambda>seg. seg \<noteq> [] \<and> seg \<noteq> ''.'')
       (split_on is_slash (if startsWith p ''/'' then p else process_cwd cfg @ ''/'' @ p))"

definition fs_stat :: "config \<Rightarrow> node \<Rightarrow> string \<Rightarrow> errno + kind" where
  "fs_stat cfg fs p =
     (case lookup_node fs (fs_segments cfg p) of
        Inl e \<Rightarrow> Inl e
      | Inr (Dir es) \<Rightarrow> Inr IsDirectory
      | Inr other \<Rightarrow> Inr IsFile)"

definition fs_access :: "config \<Rightarrow> node \<Rightarrow> string \<Rightarrow> errno + unit" where
  "fs_access cfg fs p =
     (case lookup_node fs (fs_segments cfg p) of Inl e \<Rightarrow> Inl e | Inr n \<Rightarrow> Inr ())"

definition fs_readFile :: "config \<Rightarrow> node \<Rightarrow> string \<Rightarrow> errno + string" where
  "fs_readFile cfg fs p =
     (case lookup_node fs (fs_segments cfg p) of
        Inl e \<Rightarrow> Inl e
      | Inr (File c) \<Rightarrow> Inr c
      | Inr NoAccess \<Rightarrow> Inl EACCES
      | Inr (Dir es) \<Rightarrow> Inl EISDIR)"

definition fs_readdir :: "config \<Rightarrow> node \<Rightarrow> string \<Rightarrow> errno + string list" where
  "fs_readdir cfg fs p =
     (case lookup_node fs (fs_segments cfg p) of
        Inl e \<Rightarrow> Inl e
      | Inr (Dir es) \<Rightarrow> Inr (map fst es)
      | Inr other \<Rightarrow> Inl ENOTDIR)"

definition fs_writeFile :: "config \<Rightarrow> node \<Rightarrow> string \<Rightarrow> string \<Rightarrow> errno + node" where
  "fs_writeFile cfg fs p content = write_node fs (fs_segments cfg p) content"

definition fs_mkdir_recursive :: "config \<Rightarrow> node \<Rightarrow> string \<Rightarrow> errno + node" where
  "fs_mkdir_recursive cfg fs p = mkdir_node fs (fs_segments cfg p)"

definition fs_unlink :: "config \<Rightarrow> node \<Rightarrow> string \<Rightarrow> errno + node" where
  "fs_unlink cfg fs p = unlink_node fs (fs_segments cfg p)"

section \<open>Regular expressions of the runtime\<close>

text \<open>
  \<open>new RegExp(source, flags)\<close> is modelled for the part of the syntax that the tools build
  themselves: characters, escaped syntax characters, \<open>.\<close>, \<open>[^/]\<close>, \<open>\s\<close>, \<open>\b\<close>, \<open>^\<close>, \<open>$\<close>,
  groups, alternatives and the greedy quantifiers \<open>*\<close>, \<open>+\<close> and \<open>?\<close>, with the flags \<open>g\<close>,
  \<open>i\<close> and \<open>s\<close>. Every other source is handed to the engine of the runtime, a parameter
  that yields the compiled expression, or nothing when the constructor throws a
  \<open>SyntaxError\<close>. A compiled expression is its \<open>exec\<close>: from a text and a start index to
  the index and the text of the first match at or after the start.
\<close>

type_synonym regex = "string \<Rightarrow> nat \<Rightarrow> (nat \<times> string) option"

type_synonym engine = "string \<Rightarrow> string \<Rightarrow> regex option"

definition backslash :: char where
  "backslash = CHR 0x5C"

definition is_syntax_char :: "char \<Rightarrow> bool" where
  "is_syntax_char c = (c \<in> set ''.*+?^${}()|[]'' \<or> c = backslash)"

datatype token =
  TChar char | TDot | TNotSlash | TSpace | TWordB | TBol | TEol
  | TStar | TPlus | TQuest | TOpen | TClose | TBar

definition escape_token :: "char \<Rightarrow> token option" where
  "escape_token d =
     (if is_syntax_char d \<or> d = CHR ''/'' \<or> d = CHR ''-'' then Some (TChar d)
      else if d = CHR ''s'' then Some TSpace
      else if d = CHR ''b'' then Some TWordB
      else if d = CHR ''n'' then Some (TChar newline)
      else if d = CHR ''r'' then Some (TChar (CHR 0x0D))
      else if d = CHR ''t'' then Some (TChar (CHR 0x09))
      else None)"

definition simple_token :: "char \<Rightarrow> token option" where
  "simple_token c =
     (if c = CHR ''.'' then Some TDot
      else if c = CHR ''*'' then Some TStar
      else if c = CHR ''+'' then Some TPlus
      else if c = CHR ''?'' then Some TQuest
      else if c = CHR '')'' then Some TClose
      else if c = CHR ''|'' then Some TBar
      else if c = CHR ''^'' then Some TBol
      else if c = CHR ''$'' then Some TEol
      else if is_syntax_char c then None
      else Some (TChar c))"

definition cons_token :: "token \<Rightarrow> token list option \<Rightarrow> token list option" where
  "cons_token t rest = (case rest of None \<Rightarrow> None | Some ts \<Rightarrow> Some (t # ts))"

fun tokenize :: "string \<Rightarrow> token list option" where
  "tokenize [] = Some []"
| "tokenize (c # cs) =
     (if c = backslash then
        (case cs of
           [] \<Rightarrow> None
         | d # ds \<Rightarrow> (case escape_token d of None \<Rightarrow> None | Some t \<Rightarrow> cons_token t (tokenize ds)))
      else if c = CHR ''['' then
        (if take 3 cs = ''^/]'' then cons_token TNotSlash (tokenize (drop 3 cs)) else None)
      else if c = CHR ''('' then
        (if take 2 cs = ''?:'' then cons_token TOpen (tokenize (drop 2 cs))
         else if take 1 cs = ''?'' then None
         else cons_token TOpen (tokenize cs))
      else (case simple_token c of None \<Rightarrow> None | Some t \<Rightarrow> cons_token t (tokenize cs)))"

datatype re =
  Empty | Lit char | AnyChar | NotSlash | Space | WordBoundary | Bol | Eol
  | Seq re re | Alt re re | Star re | Plus re | Opt re

definition is_assertion :: "re \<Rightarrow> bool" where
  "is_assertion r = (r = Bol \<or> r = Eol \<or> r = WordBoundary)"

definition quantify :: "re \<Rightarrow> token list \<Rightarrow> (re \<times> token list) option" where
  "quantify a ts =
     (case ts of
        TStar # rest \<Rightarrow> if is_assertion a then None else Some (Star a, rest)
      | TPlus # rest \<Rightarrow> if is_assertion a then None else Some (Plus a, rest)
      | TQuest # rest \<Rightarrow> if is_assertion a then None else Some (Opt a, rest)
      | _ \<Rightarrow> Some (a, ts))"

fun parse_alt :: "nat \<Rightarrow> token list \<Rightarrow> (re \<times> token list) option"
  and parse_seq :: "nat \<Rightarrow> token list \<Rightarrow> (re \<times> token list) option"
  and parse_atom :: "nat \<Rightarrow> token list \<Rightarrow> (re \<times> token list) option" where
  "parse_alt 0 ts = None"
| "parse_alt (Suc n) ts =
     (case parse_seq n ts of
        None \<Rightarrow> None
      | Some (r, rest) \<Rightarrow>
          (case rest of
             TBar # rest' \<Rightarrow>
               (case parse_alt n rest' of
                  None \<Rightarrow> None
                | Some (r2, rest2) \<Rightarrow> Some (Alt r r2, rest2))
           | _ \<Rightarrow> Some (r, rest)))"
| "parse_seq 0 ts = None"
| "parse_seq (Suc n) ts =
     (case ts of
        [] \<Rightarrow> Some (Empty, ts)
      | TBar # _ \<Rightarrow> Some (Empty, ts)
      | TClose # _ \<Rightarrow> Some (Empty, ts)
      | _ \<Rightarrow>
          (case parse_atom n ts of
             None \<Rightarrow> None
           | Some (a, rest) \<Rightarrow>
               (case quantify a rest of
                  None \<Rightarrow> None
                | Some (q, rest') \<Rightarrow>
                    (case parse_seq n rest' of
                       None \<Rightarrow> None
                     | Some (r, rest2) \<Rightarrow> Some (Seq q r, rest2)))))"
| "parse_atom 0 ts = None"
| "parse_atom (Suc n) ts =
     (case ts of
        TOpen # rest \<Rightarrow>
          (case parse_alt n rest of
             Some (r, TClose # rest') \<Rightarrow> Some (r, rest')
           | _ \<Rightarrow> None)
      | TChar c # rest \<Rightarrow> Some (Lit c, rest)
      | TDot # rest \<Rightarrow> Some (AnyChar, rest)
      | TNotSlash # rest \<Rightarrow> Some (NotSlash, rest)
      | TSpace # rest \<Rightarrow> Some (Space, rest)
      | TWordB # rest \<Rightarrow> Some (WordBoundary, rest)
      | TBol # rest \<Rightarrow> Some (Bol, rest)
      | TEol # rest \<Rightarrow> Some (Eol, rest)
      | _ \<Rightarrow> None)"

definition parse_regex :: "string \<Rightarrow> re option" where
  "parse_regex source =
     (case tokenize source of
        None \<Rightarrow> None
      | Some ts \<Rightarrow>
          (case parse_alt (3 * length ts + 3) ts of
             Some (r, []) \<Rightarrow> Some r
           | _ \<Rightarrow> None))"

text \<open>\<open>Canonicalize\<close> of the \<open>i\<close> flag, on code units below 256.\<close>

definition canonicalize :: "char \<Rightarrow> char" where
  "canonicalize c =
     (let n = (of_char c :: nat)
      in if (97 \<le> n \<and> n \<le> 122) \<or> (224 \<le> n \<and> n \<le> 254 \<and> n \<noteq> 247) then char_of (n - 32) else c)"

definition same_char :: "bool \<Rightarrow> char \<Rightarrow> char \<Rightarrow> bool" where
  "same_char ignoreCase a b = (if ignoreCase then canonicalize a = canonicalize b else a = b)"

definition is_word_char :: "char \<Rightarrow> bool" where
  "is_word_char c = (is_letter c \<or> is_digit c \<or> c = CHR ''_'')"

definition at_word_boundary :: "string \<Rightarrow> nat \<Rightarrow> bool" where
  "at_word_boundary s i =
     ((0 < i \<and> i \<le> length s \<and> is_word_char (s ! (i - 1))) \<noteq> (i < length s \<and> is_word_char (s ! i)))"

definition is_line_terminator :: "char \<Rightarrow> bool" where
  "is_line_terminator c = (c = newline \<or> c = CHR 0x0D)"

text \<open>The ends of the matches of an expression that start at an index, in the order in
  which backtracking tries them: the first one is the match. A repetition does not repeat
  an empty match.\<close>

fun star_iter :: "nat \<Rightarrow> (nat \<Rightarrow> nat list) \<Rightarrow> nat \<Rightarrow> nat list" where
  "star_iter 0 f i = [i]"
| "star_iter (Suc n) f i = concat (map (\<lambda>e. if i < e then star_iter n f e else []) (f i)) @ [i]"

fun ends :: "bool \<Rightarrow> bool \<Rightarrow> re \<Rightarrow> string \<Rightarrow> nat \<Rightarrow> nat list" where
  "ends ic da Empty s i = [i]"
| "ends ic da (Lit c) s i = (if i < length s \<and> same_char ic (s ! i) c then [Suc i] else [])"
| "ends ic da AnyChar s i = (if i < length s \<and> (da \<or> \<not> is_line_terminator (s ! i)) then [Suc i] else [])"
| "ends ic da NotSlash s i = (if i < length s \<and> s ! i \<noteq> CHR ''/'' then [Suc i] else [])"
| "ends ic da Space s i = (if i < length s \<and> is_whitespace (s ! i) then [Suc i] else [])"
| "ends ic da WordBoundary s i = (if at_word_boundary s i then [i] else [])"
| "ends ic da Bol s i = (if i = 0 then [i] else [])"
| "ends ic da Eol s i = (if i = length s then [i] else [])"
| "ends ic da (Seq a b) s i = concat (map (\<lambda>e. ends ic da b s e) (ends ic da a s i))"
| "ends ic da (Alt a b) s i = ends ic da a s i @ ends ic da b s i"
| "ends ic da (Star a) s i = star_iter (length s - i) (\<lambda>e. ends ic da a s e) i"
| "ends ic da (Plus a) s i =
     concat (map (\<lambda>e. star_iter (length s - e) (\<lambda>e'. ends ic da a s e') e) (ends ic da a s i))"
| "ends ic da (Opt a) s i = ends ic da a s i @ [i]"

definition re_exec :: "bool \<Rightarrow> bool \<Rightarrow> re \<Rightarrow> regex" where
  "re_exec ic da r content from =
     (case find (\<lambda>i. ends ic da r content i \<noteq> []) [from..<Suc (length content)] of
        None \<Rightarrow> None
      | Some i \<Rightarrow> Some (i, take (hd (ends ic da r content i) - i) (drop i content)))"

definition RegExp :: "engine \<Rightarrow> string \<Rightarrow> string \<Rightarrow> regex option" where
  "RegExp eng source flags =
     (if \<not> set flags \<subseteq> set ''gis'' then eng source flags
      else (case parse_regex source of
              None \<Rightarrow> eng source flags
            | Some r \<Rightarrow> Some (re_exec (CHR ''i'' \<in> set flags) (CHR ''s'' \<in> set flags) r)))"

text \<open>\<open>regex.test(str)\<close> of an expression without the \<open>g\<close> flag.\<close>

definition regex_test :: "regex \<Rightarrow> string \<Rightarrow> bool" where
  "regex_test rx s = (rx s 0 \<noteq> None)"

section \<open>Pattern matching (patterns.js)\<close>

text \<open>\<open>str.replace(/x/g, rep)\<close> for a fixed text \<open>x\<close> that is not empty: every occurrence, from
  the left, without overlap.\<close>

fun replace_all :: "string \<Rightarrow> string \<Rightarrow> string \<Rightarrow> string" where
  "replace_all pat rep [] = []"
| "replace_all pat rep (c # cs) =
     (if pat \<noteq> [] \<and> prefix pat (c # cs)
      then rep @ replace_all pat rep (drop (length pat - 1) cs)
      else c # replace_all pat rep cs)"

definition escapeRegex :: "string \<Rightarrow> string" where
  "escapeRegex str = concat (map (\<lambda>c. if is_syntax_char c then [backslash, c] else [c]) str)"

text \<open>\<open>str.replace(/[ \t]+/g, ' ')\<close>.\<close>

definition is_blank :: "char \<Rightarrow> bool" where
  "is_blank c = (c = CHR '' '' \<or> c = CHR 0x09)"

function collapse_blanks :: "string \<Rightarrow> string" where
  "collapse_blanks [] = []"
| "collapse_blanks (c # cs) =
     (if is_blank c then CHR '' '' # collapse_blanks (dropWhile is_blank cs)
      else c # collapse_blanks cs)"
  by pat_completeness auto
termination
  by (relation "measure length") (auto simp add: length_dropWhile_le less_Suc_eq_le)

definition normalizeWhitespace :: "string \<Rightarrow> string" where
  "normalizeWhitespace str =
     trim (replace_all ('' '' @ [newline]) [newline]
            (replace_all (newline # '' '') [newline]
              (collapse_blanks (replace_all [CHR 0x0D, newline] [newline] str))))"

record pattern_options =
  po_caseInsensitive :: bool
  po_multiline :: bool
  po_wholeWord :: bool
  po_maxMatches :: "nat option"

definition default_options :: pattern_options where
  "default_options =
     \<lparr>po_caseInsensitive = False, po_multiline = False, po_wholeWord = False, po_maxMatches = None\<rparr>"

text \<open>\<open>buildPattern\<close>: a mode outside the three leaves \<open>source\<close> undefined, which
  \<open>new RegExp\<close> takes as the empty pattern, and \<open>wholeWord\<close> then wraps the text
  \<open>undefined\<close>.\<close>

definition pattern_source :: "string \<Rightarrow> string \<Rightarrow> string option" where
  "pattern_source pattern mode =
     (if mode = ''literal'' then Some (escapeRegex pattern)
      else if mode = ''regex'' then Some pattern
      else if mode = ''fuzzy'' then
        Some (replace_all [newline] ([backslash] @ ''s*'' @ [backslash] @ ''n'' @ [backslash] @ ''s*'')
               (replace_all '' '' ([backslash] @ ''s+'') (escapeRegex (normalizeWhitespace pattern))))
      else None)"

definition buildPattern :: "engine \<Rightarrow> string \<Rightarrow> string \<Rightarrow> pattern_options \<Rightarrow> regex option" where
  "buildPattern eng pattern mode options =
     (let flags = ''g'' @ (if po_multiline options then ''s'' else [])
                       @ (if po_caseInsensitive options then ''i'' else []);
          source = pattern_source pattern mode;
          source' = (if po_wholeWord options
                     then Some ([backslash] @ ''b'' @ (case source of None \<Rightarrow> ''undefined'' | Some src \<Rightarrow> src)
                                @ [backslash] @ ''b'')
                     else source)
      in RegExp eng (case source' of None \<Rightarrow> ''(?:)'' | Some src \<Rightarrow> src) flags)"

record match =
  m_index :: nat
  m_text :: string
  m_line :: nat
  m_column :: nat

definition make_match :: "string \<Rightarrow> nat \<Rightarrow> string \<Rightarrow> match" where
  "make_match content index txt =
     (let beforeMatch = slice content 0 (int index);
          lines = split_lines beforeMatch
      in \<lparr>m_index = index, m_text = txt, m_line = length lines,
          m_column = length (last lines) + 1\<rparr>)"

text \<open>\<open>regex.exec(content)\<close> with the \<open>g\<close> flag starts at \<open>lastIndex\<close> and fails beyond the
  end of the text. The loop of \<open>findMatches\<close> runs at most \<open>maxMatches\<close> times; after a match
  of the empty text it moves \<open>lastIndex\<close> one further.\<close>

definition exec_at :: "regex \<Rightarrow> string \<Rightarrow> nat \<Rightarrow> (nat \<times> string) option" where
  "exec_at rx content lastIndex = (if length content < lastIndex then None else rx content lastIndex)"

fun match_loop :: "nat \<Rightarrow> regex \<Rightarrow> string \<Rightarrow> nat \<Rightarrow> match list" where
  "match_loop 0 rx content lastIndex = []"
| "match_loop (Suc n) rx content lastIndex =
     (case exec_at rx content lastIndex of
        None \<Rightarrow> []
      | Some (index, txt) \<Rightarrow>
          make_match content index txt
            # match_loop n rx content
                (let lastIndex' = index + length txt
                 in if index = lastIndex' then lastIndex' + 1 else lastIndex'))"

datatype exn = SyntaxError | TypeError | IOError errno

definition findMatches ::
    "engine \<Rightarrow> string \<Rightarrow> string \<Rightarrow> string \<Rightarrow> pattern_options \<Rightarrow> exn + match list" where
  "findMatches eng content pattern mode options =
     (case buildPattern eng pattern mode options of
        None \<Rightarrow> Inl SyntaxError
      | Some rx \<Rightarrow>
          Inr (match_loop (case po_maxMatches options of None \<Rightarrow> 1000 | Some m \<Rightarrow> m) rx content 0))"

datatype unique_match =
  NotFound | Multiple (um_count: nat) (um_lines: "nat list") | Unique match

definition findUniqueMatch ::
    "engine \<Rightarrow> string \<Rightarrow> string \<Rightarrow> string \<Rightarrow> pattern_options \<Rightarrow> exn + unique_match" where
  "findUniqueMatch eng content pattern mode options =
     (case findMatches eng content pattern mode (options\<lparr>po_maxMatches := Some 10\<rparr>) of
        Inl e \<Rightarrow> Inl e
      | Inr matches \<Rightarrow>
          Inr (if length matches = 0 then NotFound
               else if 1 < length matches then Multiple (length matches) (map m_line matches)
               else Unique (hd matches)))"

record replace_result =
  rr_newContent :: string
  rr_count :: nat
  rr_affectedLines :: "nat list"

text \<open>The replacements run from the last match to the first, each one on the text that the
  ones before it left.\<close>

definition replace_match :: "string \<Rightarrow> match \<Rightarrow> string \<Rightarrow> string" where
  "replace_match replacement m current =
     slice current 0 (int (m_index m)) @ replacement
       @ slice_from current (int (m_index m + length (m_text m)))"

definition replaceAllMatches ::
    "engine \<Rightarrow> string \<Rightarrow> string \<Rightarrow> string \<Rightarrow> string \<Rightarrow> pattern_options \<Rightarrow> exn + replace_result" where
  "replaceAllMatches eng content pattern replacement mode options =
     (case findMatches eng content pattern mode (options\<lparr>po_maxMatches := Some 10000\<rparr>) of
        Inl e \<Rightarrow> Inl e
      | Inr matches \<Rightarrow>
          Inr (if length matches = 0
               then \<lparr>rr_newContent = content, rr_count = 0, rr_affectedLines = []\<rparr>
               else \<lparr>rr_newContent = fold (replace_match replacement) (rev matches) content,
                     rr_count = length matches,
                     rr_affectedLines = sort (remdups (map m_line matches))\<rparr>))"

section \<open>Ignore rules (ignore.js)\<close>

definition DEFAULT_IGNORE :: "string list" where
  "DEFAULT_IGNORE = [''.*'', ''node_modules'', ''Thumbs.db'', ''*.swp'', ''*.swo'', ''*~'']"

definition parseIgnorePatterns :: "string \<Rightarrow> string list" where
  "parseIgnorePatterns content =
     filter (\<lambda>line. line \<noteq> [] \<and> \<not> startsWith line ''#'') (map trim (split_lines content))"

definition glob_source :: "string \<Rightarrow> string" where
  "glob_source pattern =
     replace_all ''?'' ''[^/]''
       (replace_all ''<<<GLOBSTAR>>>'' ''.*''
         (replace_all ''*'' ''[^/]*''
           (replace_all ''**'' ''<<<GLOBSTAR>>>''
             (replace_all ''.'' ([backslash] @ ''.'') pattern))))"

definition globToRegex :: "engine \<Rightarrow> string \<Rightarrow> regex option" where
  "globToRegex eng pattern =
     (let rx = glob_source pattern
      in RegExp eng
           (if endsWith pattern ''/'' then slice rx 0 (-2) @ ''(/.*)?$''
            else ''(^|/)'' @ rx @ ''(/.*)?$'')
           [])"

record ignore_rule =
  rule_pattern :: string
  rule_regex :: regex
  rule_negated :: bool

text \<open>\<open>createIgnoreMatcher\<close> compiles every pattern when the matcher is made, so a pattern
  that does not compile makes the constructor throw.\<close>

fun compile_rules :: "engine \<Rightarrow> string list \<Rightarrow> exn + ignore_rule list" where
  "compile_rules eng [] = Inr []"
| "compile_rules eng (p # ps) =
     (case globToRegex eng p of
        None \<Rightarrow> Inl SyntaxError
      | Some rx \<Rightarrow>
          (case compile_rules eng ps of
             Inl e \<Rightarrow> Inl e
           | Inr rules \<Rightarrow>
               Inr (\<lparr>rule_pattern = p, rule_regex = rx, rule_negated = startsWith p ''!''\<rparr> # rules)))"

definition createIgnoreMatcher :: "engine \<Rightarrow> string list \<Rightarrow> exn + ignore_rule list" where
  "createIgnoreMatcher eng patterns = compile_rules eng (DEFAULT_IGNORE @ patterns)"

definition isIgnored :: "ignore_rule list \<Rightarrow> string \<Rightarrow> bool" where
  "isIgnored rules relPath =
     fold (\<lambda>rule ignored. if regex_test (rule_regex rule) relPath then \<not> rule_negated rule else ignored)
       rules False"

section \<open>Unified diff (diff.js)\<close>

text \<open>The inner loop that skips the lines the two texts share.\<close>

function skip_common :: "string list \<Rightarrow> string list \<Rightarrow> nat \<Rightarrow> nat \<Rightarrow> nat \<times> nat" where
  "skip_common oldLines newLines i j =
     (if i < length oldLines \<and> j < length newLines \<and> oldLines ! i = newLines ! j
      then skip_common oldLines newLines (Suc i) (Suc j)
      else (i, j))"
  by pat_completeness auto
termination
  by (relation "measure (\<lambda>(oldLines, newLines, i, j). length oldLines - i)") auto

declare skip_common.simps [simp del]

text \<open>The loop that finds the end of a hunk: \<open>(oldEnd, newEnd, contextAfter)\<close>. It stops
  at the third equal line in a row, before it steps over that line.\<close>

function hunk_scan :: "string list \<Rightarrow> string list \<Rightarrow> nat \<Rightarrow> nat \<Rightarrow> nat \<Rightarrow> nat \<times> nat \<times> nat" where
  "hunk_scan oldLines newLines oldEnd newEnd contextAfter =
     (if oldEnd < length oldLines \<or> newEnd < length newLines then
        (if oldEnd < length oldLines \<and> newEnd < length newLines
            \<and> oldLines ! oldEnd = newLines ! newEnd
         then
           (if 3 \<le> contextAfter + 1 then (oldEnd, newEnd, contextAfter + 1)
            else hunk_scan oldLines newLines (oldEnd + 1) (newEnd + 1) (contextAfter + 1))
         else
           (let oldEnd' =
                  (if oldEnd < length oldLines
                      \<and> (length newLines \<le> newEnd \<or> oldLines ! oldEnd \<noteq> newLines ! newEnd)
                   then oldEnd + 1 else oldEnd);
                newEnd' =
                  (if newEnd < length newLines
                      \<and> (length oldLines \<le> oldEnd' \<or> oldLines ! (oldEnd' - 1) \<noteq> newLines ! newEnd)
                   then newEnd + 1 else newEnd)
            in hunk_scan oldLines newLines oldEnd' newEnd' 0))
      else (oldEnd, newEnd, contextAfter))"
  by pat_completeness auto
termination
  by (relation "measure (\<lambda>(oldLines, newLines, oldEnd, newEnd, contextAfter).
                  (length oldLines - oldEnd) + (length newLines - newEnd))")
     (auto simp add: Let_def)

declare hunk_scan.simps [simp del]

record hunk =
  hunkStartOld :: nat
  hunkStartNew :: nat
  hunkOldEnd :: nat
  hunkNewEnd :: nat
  hunkLines :: "string list"

definition make_hunk :: "string list \<Rightarrow> string list \<Rightarrow> nat \<Rightarrow> nat \<Rightarrow> hunk" where
  "make_hunk oldLines newLines i j =
     (let startOld = i - 3;
          startNew = j - 3
      in case hunk_scan oldLines newLines i j 0 of
           (oldEnd, newEnd, contextAfter) \<Rightarrow>
             \<lparr>hunkStartOld = startOld, hunkStartNew = startNew,
              hunkOldEnd = oldEnd, hunkNewEnd = newEnd,
              hunkLines =
                map (\<lambda>k. '' '' @ oldLines ! k) [startOld..<i]
                @ map (\<lambda>k. ''-'' @ oldLines ! k) [i..<oldEnd - contextAfter]
                @ map (\<lambda>k. ''+'' @ newLines ! k) [j..<newEnd - contextAfter]
                @ map (\<lambda>k. '' '' @ oldLines ! (oldEnd - contextAfter + k))
                    (filter (\<lambda>k. oldEnd - contextAfter + k < length oldLines) [0..<contextAfter])\<rparr>)"

definition hunk_header :: "hunk \<Rightarrow> string" where
  "hunk_header h =
     ''@@ -'' @ string_of_nat (hunkStartOld h + 1) @ '','' @ string_of_nat (hunkOldEnd h - hunkStartOld h)
     @ '' +'' @ string_of_nat (hunkStartNew h + 1) @ '','' @ string_of_nat (hunkNewEnd h - hunkStartNew h)
     @ '' @@''"

text \<open>The outer loop, with the hunks found so far. It terminates because a hunk always
  ends beyond the line it starts at.\<close>

function diff_hunks :: "string list \<Rightarrow> string list \<Rightarrow> nat \<Rightarrow> nat \<Rightarrow> hunk list \<Rightarrow> hunk list" where
  "diff_hunks oldLines newLines i j hunks =
     (if i < length oldLines \<or> j < length newLines then
        (case skip_common oldLines newLines i j of
           (i', j') \<Rightarrow>
             if length oldLines \<le> i' \<and> length newLines \<le> j' then hunks
             else
               (let h = make_hunk oldLines newLines i' j'
                in diff_hunks oldLines newLines (hunkOldEnd h) (hunkNewEnd h)
                     (if 0 < length (hunkLines h) then hunks @ [h] else hunks)))
      else hunks)"
  by pat_completeness auto
termination
proof (relation "measure (\<lambda>(oldLines, newLines, i, j, hunks).
                   (length oldLines - i) + (length newLines - j))", goal_cases)
  case 1
  show ?case by simp
next
  case (2 oldLines newLines i j hunks i' j' h)
  have skip_mono: "a \<le> fst (skip_common oldLines newLines a b) \<and> b \<le> snd (skip_common oldLines newLines a b)"
    for a b
  proof (induction oldLines newLines a b rule: skip_common.induct)
    case (1 oldLines newLines i j)
    then show ?case by (subst (1 2) skip_common.simps) auto
  qed
  have skip_exit: "\<not> (fst (skip_common oldLines newLines a b) < length oldLines
                      \<and> snd (skip_common oldLines newLines a b) < length newLines
                      \<and> oldLines ! fst (skip_common oldLines newLines a b)
                          = newLines ! snd (skip_common oldLines newLines a b))"
    for a b
  proof (induction oldLines newLines a b rule: skip_common.induct)
    case (1 oldLines newLines i j)
    then show ?case by (subst (1 2 3 4) skip_common.simps) auto
  qed
  have scan_mono: "oe \<le> fst (hunk_scan oldLines newLines oe ne ca)
                   \<and> ne \<le> fst (snd (hunk_scan oldLines newLines oe ne ca))" for oe ne ca
  proof (induction oldLines newLines oe ne ca rule: hunk_scan.induct)
    case (1 oldLines newLines oldEnd newEnd contextAfter)
    then show ?case
      by (subst (1 2) hunk_scan.simps) (auto simp add: Let_def intro: Suc_leD)
  qed
  have ij: "i' = fst (skip_common oldLines newLines i j)" "j' = snd (skip_common oldLines newLines i j)"
    using 2 by (metis fst_conv, metis snd_conv)
  have differ: "\<not> (i' < length oldLines \<and> j' < length newLines \<and> oldLines ! i' = newLines ! j')"
    unfolding ij by (rule skip_exit)
  have inrange: "i' < length oldLines \<or> j' < length newLines"
    using 2 by auto
  have first: "hunk_scan oldLines newLines i' j' 0 =
                 hunk_scan oldLines newLines
                   (if i' < length oldLines then i' + 1 else i')
                   (if j' < length newLines then j' + 1 else j') 0"
    using differ inrange by (subst hunk_scan.simps) (auto simp add: Let_def)
  have ends: "hunkOldEnd h = fst (hunk_scan oldLines newLines i' j' 0)"
             "hunkNewEnd h = fst (snd (hunk_scan oldLines newLines i' j' 0))"
    using 2 by (auto simp add: make_hunk_def Let_def split: prod.splits)
  from skip_mono [of i j] inrange
       scan_mono [of "if i' < length oldLines then i' + 1 else i'"
                     "if j' < length newLines then j' + 1 else j'" 0]
  show ?case unfolding ends first ij [symmetric]
    using ij by (auto split: if_splits)
qed

declare diff_hunks.simps [simp del]

definition generateDiff :: "string \<Rightarrow> string \<Rightarrow> string \<Rightarrow> string" where
  "generateDiff oldContent newContent filename =
     (let oldLines = split_lines oldContent;
          newLines = split_lines newContent;
          hunks = map (\<lambda>h. hunk_header h @ [newline] @ join_lines (hunkLines h))
                    (diff_hunks oldLines newLines 0 0 [])
      in if length hunks = 0 then ''(no changes)''
         else ''--- a/'' @ filename @ [newline] @ ''+++ b/'' @ filename @ [newline] @ join_lines hunks)"

section \<open>fs_write (fs-write.js)\<close>

datatype error_code =
  INVALID_PATH | NOT_FOUND | AMBIGUOUS | NOT_TEXT | IO_ERROR | INVALID_RANGE | OUT_OF_RANGE
  | PATTERN_NOT_FOUND | MULTIPLE_MATCHES | ALREADY_EXISTS | MISSING_ACTION | MISSING_CONTENT
  | CHECKSUM_MISMATCH | INVALID_ACTION | INVALID_OPERATION | INVALID_TYPE | NO_TARGET

text \<open>The arguments of a call, with the types of the schema; an argument that is left out is
  \<open>None\<close>, or \<open>False\<close> for a flag. \<open>truthy\<close> is the test \<open>if (x)\<close> on a string that may be
  absent.\<close>

record write_args =
  arg_path :: string
  arg_operation :: string
  arg_action :: "string option"
  arg_content :: "string option"
  arg_lines :: "string option"
  arg_pattern :: "string option"
  arg_patternMode :: "string option"
  arg_replaceAll :: bool
  arg_checksum :: "string option"
  arg_dryRun :: bool
  arg_caseInsensitive :: bool

definition truthy :: "string option \<Rightarrow> bool" where
  "truthy x = (case x of None \<Rightarrow> False | Some s \<Rightarrow> s \<noteq> [])"

definition or_else :: "string option \<Rightarrow> string \<Rightarrow> string" where
  "or_else x d = (case x of None \<Rightarrow> d | Some s \<Rightarrow> s)"

datatype write_envelope =
  WriteFailure (wf_path: string) (wf_operation: "string option") (wf_applied: "bool option")
    (wf_code: error_code)
  | WriteSuccess (ws_path: string) (ws_operation: string) (ws_applied: bool) (ws_action: string)
      (ws_linesAffected: "int option") (ws_newChecksum: "string option") (ws_diff: "string option")

text \<open>An asynchronous function returns its envelope or rejects with what was thrown; the
  file system it leaves behind is returned with either.\<close>

type_synonym 'a outcome = "(exn + 'a) \<times> node"

definition fileExists :: "config \<Rightarrow> node \<Rightarrow> string \<Rightarrow> bool" where
  "fileExists cfg fs absPath = (case fs_access cfg fs absPath of Inl e \<Rightarrow> False | Inr u \<Rightarrow> True)"

definition createFile ::
    "config \<Rightarrow> node \<Rightarrow> string \<Rightarrow> string \<Rightarrow> string \<Rightarrow> bool \<Rightarrow> write_envelope outcome" where
  "createFile cfg fs absPath relPath content dryRun =
     (if fileExists cfg fs absPath then
        (Inr (WriteFailure relPath (Some ''create'') (Some False) ALREADY_EXISTS), fs)
      else if dryRun then
        (Inr (WriteSuccess relPath ''create'' False ''would_create''
                (Some (int (length (split_lines content)))) None
                (Some (generateDiff [] content relPath))), fs)
      else
        (case fs_mkdir_recursive cfg fs (path_dirname absPath) of
           Inl e \<Rightarrow> (Inl (IOError e), fs)
         | Inr fs1 \<Rightarrow>
             (case fs_writeFile cfg fs1 absPath content of
                Inl e \<Rightarrow> (Inl (IOError e), fs1)
              | Inr fs2 \<Rightarrow>
                  (Inr (WriteSuccess relPath ''create'' True ''created''
                          (Some (int (length (split_lines content))))
                          (Some (generateChecksum content)) None), fs2))))"

definition deleteFile :: "config \<Rightarrow> node \<Rightarrow> string \<Rightarrow> string \<Rightarrow> bool \<Rightarrow> write_envelope outcome" where
  "deleteFile cfg fs absPath relPath dryRun =
     (if \<not> fileExists cfg fs absPath then
        (Inr (WriteFailure relPath (Some ''delete'') (Some False) NOT_FOUND), fs)
      else if dryRun then
        (Inr (WriteSuccess relPath ''delete'' False ''would_delete'' None None None), fs)
      else
        (case fs_unlink cfg fs absPath of
           Inl e \<Rightarrow> (Inl (IOError e), fs)
         | Inr fs1 \<Rightarrow> (Inr (WriteSuccess relPath ''delete'' True ''deleted'' None None None), fs1)))"

text \<open>The second half of \<open>updateFile\<close>: the switch on the action, the diff and the write, for
  the target lines found and the match of the pattern, if the target came from one.\<close>

definition applyAction ::
    "config \<Rightarrow> node \<Rightarrow> string \<Rightarrow> string \<Rightarrow> write_args \<Rightarrow> string \<Rightarrow> int \<Rightarrow> int \<Rightarrow> match option
     \<Rightarrow> write_envelope outcome" where
  "applyAction cfg fs absPath relPath input currentContent targetStart targetEnd patternMatch =
     (let content = or_else (arg_content input) [];
          action = or_else (arg_action input) [];
          contentLines = int (length (split_lines content));
          chosen =
            (if action = ''replace'' then
               (case patternMatch of
                  Some m \<Rightarrow>
                    Some (slice currentContent 0 (int (m_index m)) @ content
                            @ slice_from currentContent (int (m_index m + length (m_text m))),
                          ''replaced'',
                          max (int (length (split_lines (m_text m)))) contentLines)
                | None \<Rightarrow>
                    Some (replaceLines currentContent targetStart targetEnd content,
                          ''replaced'', targetEnd - targetStart + 1))
             else if action = ''insert_before'' then
               Some (insertBeforeLine currentContent targetStart content, ''inserted_before'', contentLines)
             else if action = ''insert_after'' then
               Some (insertAfterLine currentContent targetEnd content, ''inserted_after'', contentLines)
             else if action = ''delete_lines'' then
               Some (deleteLines currentContent targetStart targetEnd, ''deleted_lines'',
                     targetEnd - targetStart + 1)
             else None)
      in case chosen of
           None \<Rightarrow> (Inr (WriteFailure relPath (Some ''update'') (Some False) INVALID_ACTION), fs)
         | Some (newContent, actionDescription, linesAffected) \<Rightarrow>
             let diff = generateDiff currentContent newContent relPath
             in if arg_dryRun input then
                  (Inr (WriteSuccess relPath ''update'' False (''would_'' @ actionDescription)
                          (Some linesAffected) None (Some diff)), fs)
                else
                  (case fs_writeFile cfg fs absPath newContent of
                     Inl e \<Rightarrow> (Inl (IOError e), fs)
                   | Inr fs1 \<Rightarrow>
                       (Inr (WriteSuccess relPath ''update'' True actionDescription
                               (Some linesAffected) (Some (generateChecksum newContent)) (Some diff)),
                        fs1)))"

definition update_failure :: "string \<Rightarrow> error_code \<Rightarrow> node \<Rightarrow> write_envelope outcome" where
  "update_failure relPath code fs = (Inr (WriteFailure relPath (Some ''update'') (Some False) code), fs)"

definition updateFile ::
    "engine \<Rightarrow> config \<Rightarrow> node \<Rightarrow> string \<Rightarrow> string \<Rightarrow> write_args \<Rightarrow> write_envelope outcome" where
  "updateFile eng cfg fs absPath relPath input =
     (if \<not> fileExists cfg fs absPath then update_failure relPath NOT_FOUND fs
      else if \<not> isTextFile absPath then update_failure relPath NOT_TEXT fs
      else if \<not> truthy (arg_action input) then update_failure relPath MISSING_ACTION fs
      else
        (case fs_readFile cfg fs absPath of
           Inl e \<Rightarrow> (Inl (IOError e), fs)
         | Inr currentContent \<Rightarrow>
             let currentChecksum = generateChecksum currentContent;
                 options = default_options\<lparr>po_caseInsensitive := arg_caseInsensitive input\<rparr>;
                 mode = or_else (arg_patternMode input) ''literal''
             in if truthy (arg_checksum input) \<and> arg_checksum input \<noteq> Some currentChecksum then
                  update_failure relPath CHECKSUM_MISMATCH fs
                else if truthy (arg_lines input) then
                  (case parseLineRange (or_else (arg_lines input) []) of
                     None \<Rightarrow> update_failure relPath INVALID_RANGE fs
                   | Some rng \<Rightarrow>
                       let lines = split_lines currentContent
                       in if length lines < range_start rng then update_failure relPath OUT_OF_RANGE fs
                          else applyAction cfg fs absPath relPath input currentContent
                                 (int (range_start rng)) (int (min (range_end rng) (length lines))) None)
                else if truthy (arg_pattern input) then
                  (if arg_replaceAll input \<and> arg_action input = Some ''replace'' then
                     (case replaceAllMatches eng currentContent (or_else (arg_pattern input) [])
                             (or_else (arg_content input) []) mode options of
                        Inl e \<Rightarrow> (Inl e, fs)
                      | Inr result \<Rightarrow>
                          if rr_count result = 0 then update_failure relPath PATTERN_NOT_FOUND fs
                          else
                            let diff = generateDiff currentContent (rr_newContent result) relPath;
                                affected = Some (int (length (rr_affectedLines result)))
                            in if arg_dryRun input then
                                 (Inr (WriteSuccess relPath ''update'' False ''would_replace_all''
                                         affected None (Some diff)), fs)
                               else
                                 (case fs_writeFile cfg fs absPath (rr_newContent result) of
                                    Inl e \<Rightarrow> (Inl (IOError e), fs)
                                  | Inr fs1 \<Rightarrow>
                                      (Inr (WriteSuccess relPath ''update'' True ''replaced_all''
                                              affected
                                              (Some (generateChecksum (rr_newContent result)))
                                              (Some diff)), fs1)))
                   else
                     (case findUniqueMatch eng currentContent (or_else (arg_pattern input) []) mode options of
                        Inl e \<Rightarrow> (Inl e, fs)
                      | Inr NotFound \<Rightarrow> update_failure relPath PATTERN_NOT_FOUND fs
                      | Inr (Multiple n ls) \<Rightarrow> update_failure relPath MULTIPLE_MATCHES fs
                      | Inr (Unique m) \<Rightarrow>
                          applyAction cfg fs absPath relPath input currentContent
                            (int (m_line m))
                            (int (m_line m) + int (length (split_lines (m_text m))) - 1) (Some m)))
                else update_failure relPath NO_TARGET fs))"

definition fs_write_execute :: "engine \<Rightarrow> config \<Rightarrow> node \<Rightarrow> write_args \<Rightarrow> write_envelope outcome" where
  "fs_write_execute eng cfg fs args =
     (case resolvePath cfg (arg_path args) of
        Inl err \<Rightarrow> (Inr (WriteFailure (arg_path args) None None INVALID_PATH), fs)
      | Inr resolved \<Rightarrow>
          let absPath = absolutePath resolved;
              vPath = virtualPath resolved
          in if arg_operation args = ''create'' then
               (if \<not> truthy (arg_content args) then
                  (Inr (WriteFailure vPath (Some ''create'') None MISSING_CONTENT), fs)
                else createFile cfg fs absPath vPath (or_else (arg_content args) []) (arg_dryRun args))
             else if arg_operation args = ''delete'' then
               deleteFile cfg fs absPath vPath (arg_dryRun args)
             else if arg_operation args = ''update'' then
               updateFile eng cfg fs absPath vPath args
             else (Inr (WriteFailure vPath None None INVALID_OPERATION), fs))"

section \<open>Fuzzy file search (file-search.js)\<close>

definition ALWAYS_EXCLUDE :: "string list" where
  "ALWAYS_EXCLUDE =
     [''.git'', ''node_modules'', ''.svelte-kit'', ''.next'', ''.nuxt'',
      ''__pycache__'', ''target'', ''dist'', ''.agent-data'']"

fun fuzzy_indices :: "string \<Rightarrow> string \<Rightarrow> nat \<Rightarrow> nat list option" where
  "fuzzy_indices [] target i = Some []"
| "fuzzy_indices (q # qs) [] i = None"
| "fuzzy_indices (q # qs) (c # cs) i =
     (if c = q then (case fuzzy_indices qs cs (Suc i) of None \<Rightarrow> None | Some is \<Rightarrow> Some (i # is))
      else fuzzy_indices (q # qs) cs (Suc i))"

record fuzzy_result =
  fz_score :: int
  fz_indices :: "nat list"

definition fuzzyMatch :: "string \<Rightarrow> string \<Rightarrow> fuzzy_result option" where
  "fuzzyMatch query target =
     (let queryLower = toLowerCase query;
          targetLower = toLowerCase target
      in case fuzzy_indices queryLower targetLower 0 of
           None \<Rightarrow> None
         | Some indices \<Rightarrow>
             Some \<lparr>fz_score =
                     (\<Sum>k \<leftarrow> [0..<length indices].
                        (let idx = indices ! k
                         in (if 0 < k \<and> Suc (indices ! (k - 1)) = idx then 10 else 0)
                            + (if idx = 0 \<or> targetLower ! (idx - 1) \<in> set ''/_-'' then 5 else 0)))
                     - int (length (split_on is_slash target)) * 2,
                   fz_indices = indices\<rparr>)"

text \<open>\<open>loadIgnorePatterns\<close> and \<open>createIgnoreMatcherForDir\<close> (ignore.js): a rule file that
  cannot be read is skipped.\<close>

definition loadIgnorePatterns :: "config \<Rightarrow> node \<Rightarrow> string \<Rightarrow> string list" where
  "loadIgnorePatterns cfg fs dir =
     concat (map (\<lambda>filename. case fs_readFile cfg fs (path_join [dir, filename]) of
                                 Inl e \<Rightarrow> []
                               | Inr content \<Rightarrow> parseIgnorePatterns content)
               [''.gitignore'', ''.ignore''])"

definition createIgnoreMatcherForDir :: "engine \<Rightarrow> config \<Rightarrow> node \<Rightarrow> string \<Rightarrow> exn + ignore_rule list" where
  "createIgnoreMatcherForDir eng cfg fs dir = createIgnoreMatcher eng (loadIgnorePatterns cfg fs dir)"

record file_entry =
  fe_relativePath :: string
  fe_fileName :: string
  fe_isDirectory :: bool
  fe_extension :: string

record search_options =
  so_maxResults :: "nat option"
  so_includeDirectories :: "bool option"
  so_maxDepth :: "nat option"

definition no_search_options :: search_options where
  "no_search_options = \<lparr>so_maxResults = None, so_includeDirectories = None, so_maxDepth = None\<rparr>"

text \<open>The walk of \<open>searchFiles\<close>, by the number of levels it may still enter
  (\<open>maxDepth - currentDepth + 1\<close>), with the entries collected so far.\<close>

definition search_item ::
    "(string \<Rightarrow> string \<Rightarrow> file_entry list \<Rightarrow> file_entry list) \<Rightarrow> config \<Rightarrow> node \<Rightarrow> ignore_rule list
     \<Rightarrow> bool \<Rightarrow> string \<Rightarrow> string \<Rightarrow> string \<Rightarrow> file_entry list \<Rightarrow> file_entry list" where
  "search_item deeper cfg fs rules includeDirectories dir relDir item entries =
     (if startsWith item ''.'' then entries
      else if item \<in> set ALWAYS_EXCLUDE then entries
      else
        let itemPath = path_join [dir, item];
            itemRelPath = (if relDir \<noteq> [] then backslashes_to_slashes (path_join [relDir, item]) else item)
        in if isIgnored rules itemRelPath then entries
           else
             (case fs_stat cfg fs itemPath of
                Inl e \<Rightarrow> entries
              | Inr IsDirectory \<Rightarrow>
                  deeper itemPath itemRelPath
                    (if includeDirectories
                     then entries @ [\<lparr>fe_relativePath = itemRelPath, fe_fileName = item,
                                      fe_isDirectory = True, fe_extension = []\<rparr>]
                     else entries)
              | Inr IsFile \<Rightarrow>
                  entries @ [\<lparr>fe_relativePath = itemRelPath, fe_fileName = item, fe_isDirectory = False,
                              fe_extension = toLowerCase (slice_from (path_extname item) 1)\<rparr>]))"

primrec search_walk ::
    "nat \<Rightarrow> config \<Rightarrow> node \<Rightarrow> ignore_rule list \<Rightarrow> bool \<Rightarrow> string \<Rightarrow> string \<Rightarrow> file_entry list
     \<Rightarrow> file_entry list" where
  "search_walk 0 cfg fs rules includeDirectories dir relDir entries = entries"
| "search_walk (Suc levels) cfg fs rules includeDirectories dir relDir entries =
     (case fs_readdir cfg fs dir of
        Inl e \<Rightarrow> entries
      | Inr items \<Rightarrow>
          fold (search_item (search_walk levels cfg fs rules includeDirectories)
                  cfg fs rules includeDirectories dir relDir)
            items entries)"

record scored_entry =
  se_entry :: file_entry
  se_absolutePath :: string
  se_score :: int
  se_matchIndices :: "nat list"

definition score_entry :: "string \<Rightarrow> string \<Rightarrow> file_entry \<Rightarrow> scored_entry option" where
  "score_entry root queryLower entry =
     (if queryLower = [] then
        Some \<lparr>se_entry = entry, se_absolutePath = path_join [root, fe_relativePath entry],
              se_score = 100 - int (length (split_on is_slash (fe_relativePath entry))) * 10,
              se_matchIndices = []\<rparr>
      else
        let nameMatch = fuzzyMatch queryLower (fe_fileName entry);
            pathMatch = fuzzyMatch queryLower (fe_relativePath entry)
        in if nameMatch \<noteq> None \<or> pathMatch \<noteq> None then
             Some \<lparr>se_entry = entry, se_absolutePath = path_join [root, fe_relativePath entry],
                   se_score = (case nameMatch of None \<Rightarrow> - 1000 | Some m \<Rightarrow> fz_score m) * 2
                              + (case pathMatch of None \<Rightarrow> 0 | Some m \<Rightarrow> fz_score m),
                   se_matchIndices =
                     (case nameMatch of
                        Some m \<Rightarrow> fz_indices m
                      | None \<Rightarrow> (case pathMatch of Some m \<Rightarrow> fz_indices m | None \<Rightarrow> []))\<rparr>
           else None)"

text \<open>\<open>scored.sort((a, b) => b.score - a.score)\<close> is a stable sort, highest score first.\<close>

definition searchFiles ::
    "engine \<Rightarrow> config \<Rightarrow> node \<Rightarrow> string \<Rightarrow> string \<Rightarrow> search_options \<Rightarrow> exn + scored_entry list" where
  "searchFiles eng cfg fs root query options =
     (let maxResults = (case so_maxResults options of None \<Rightarrow> 50 | Some m \<Rightarrow> m);
          includeDirectories = (case so_includeDirectories options of None \<Rightarrow> False | Some b \<Rightarrow> b);
          maxDepth = (case so_maxDepth options of None \<Rightarrow> 10 | Some d \<Rightarrow> d)
      in case createIgnoreMatcherForDir eng cfg fs root of
           Inl e \<Rightarrow> Inl e
         | Inr rules \<Rightarrow>
             let entries = search_walk (Suc maxDepth) cfg fs rules includeDirectories root [] [];
                 queryLower = trim (toLowerCase query);
                 scored = List.map_filter (score_entry root queryLower) entries
             in Inr (take maxResults (sort_key (\<lambda>e. - se_score e) scored)))"

record auto_resolve =
  ar_resolved :: bool
  ar_resolvedPath :: "string option"
  ar_candidates :: "string list"
  ar_ambiguous :: bool

definition tryAutoResolve :: "engine \<Rightarrow> config \<Rightarrow> node \<Rightarrow> string \<Rightarrow> string \<Rightarrow> exn + auto_resolve" where
  "tryAutoResolve eng cfg fs root relPath =
     (let fileName = path_basename relPath
      in if fileName = [] then
           Inr \<lparr>ar_resolved = False, ar_resolvedPath = None, ar_candidates = [], ar_ambiguous = False\<rparr>
         else
           (case searchFiles eng cfg fs root fileName (no_search_options\<lparr>so_maxResults := Some 10\<rparr>) of
              Inl e \<Rightarrow> Inl e
            | Inr results \<Rightarrow>
                let fileNameLower = toLowerCase fileName;
                    matches = filter (\<lambda>e. \<not> fe_isDirectory (se_entry e)
                                           \<and> toLowerCase (fe_fileName (se_entry e)) = fileNameLower)
                                results
                in if length matches = 0 then
                     Inr \<lparr>ar_resolved = False, ar_resolvedPath = None, ar_candidates = [],
                          ar_ambiguous = False\<rparr>
                   else if length matches = 1 then
                     Inr \<lparr>ar_resolved = True,
                          ar_resolvedPath = Some (fe_relativePath (se_entry (hd matches))),
                          ar_candidates = [fe_relativePath (se_entry (hd matches))],
                          ar_ambiguous = False\<rparr>
                   else
                     Inr \<lparr>ar_resolved = False, ar_resolvedPath = None,
                          ar_candidates = map (\<lambda>m. fe_relativePath (se_entry m)) matches,
                          ar_ambiguous = True\<rparr>))"

section \<open>fs_read (fs-read.js)\<close>

record read_args =
  rd_path :: string
  rd_pattern :: "string option"
  rd_preset :: "string option"
  rd_patternMode :: "string option"
  rd_find :: "string option"
  rd_lines :: "string option"
  rd_depth :: "nat option"
  rd_context :: "nat option"

record tree_entry =
  te_path :: string
  te_kind :: kind
  te_children :: "nat option"
  te_size :: "string option"

record search_match =
  sm_file :: string
  sm_line :: nat
  sm_text :: string
  sm_before :: "string list"
  sm_match :: "string list"
  sm_after :: "string list"

record file_content =
  fc_text :: string
  fc_checksum :: string
  fc_totalLines :: nat
  fc_range :: "(nat \<times> nat) option"
  fc_truncated :: bool

datatype read_envelope =
  ReadFailure (rf_path: string) (rf_type: "string option") (rf_code: error_code)
    (rf_candidates: "string list option")
  | ReadFile (rr_path: string) (rr_content: file_content) (rr_autoResolved: "string option")
  | ReadDirectory (rd_dir_path: string) (rd_entries: "tree_entry list") (rd_truncated: "bool option")
  | ReadSearch (rs_path: string) (rs_matches: "search_match list") (rs_matchCount: nat)

text \<open>\<open>formatSize\<close>: \<open>toFixed(1)\<close> rounds the exact quotient to one decimal, a tie upwards.\<close>

definition toFixed1 :: "nat \<Rightarrow> nat \<Rightarrow> string" where
  "toFixed1 bytes unit =
     (let tenths = (20 * bytes + unit) div (2 * unit)
      in string_of_nat (tenths div 10) @ ''.'' @ string_of_nat (tenths mod 10))"

definition formatSize :: "nat \<Rightarrow> string" where
  "formatSize bytes =
     (if bytes < 1024 then string_of_nat bytes @ ''B''
      else if bytes < 1024 * 1024 then toFixed1 bytes 1024 @ ''KB''
      else toFixed1 bytes (1024 * 1024) @ ''MB'')"

definition fs_size :: "config \<Rightarrow> node \<Rightarrow> string \<Rightarrow> nat" where
  "fs_size cfg fs p =
     (case lookup_node fs (fs_segments cfg p) of
        Inr (File c) \<Rightarrow> length (utf8_encode c)
      | _ \<Rightarrow> 0)"

text \<open>\<open>listDirectory\<close>, as \<open>execute\<close> calls it (no options: 500 entries at most, ignore rules
  on). The walk goes by the number of levels it may still list
  (\<open>depth - currentDepth + 1\<close>); its state is the entries and the \<open>truncated\<close> flag.\<close>

definition list_item ::
    "(string \<Rightarrow> string \<Rightarrow> tree_entry list \<times> bool \<Rightarrow> tree_entry list \<times> bool) option
     \<Rightarrow> config \<Rightarrow> node \<Rightarrow> ignore_rule list \<Rightarrow> nat \<Rightarrow> string \<Rightarrow> string \<Rightarrow> string
     \<Rightarrow> tree_entry list \<times> bool \<Rightarrow> tree_entry list \<times> bool" where
  "list_item deeper cfg fs rules maxFiles dir relDir item st =
     (case st of (entries, truncated) \<Rightarrow>
        if maxFiles \<le> length entries then (entries, True)
        else
          let itemPath = path_join [dir, item];
              itemRelPath = path_join [relDir, item]
          in if isIgnored rules itemRelPath then st
             else
               (case fs_stat cfg fs itemPath of
                  Inl e \<Rightarrow> st
                | Inr IsDirectory \<Rightarrow>
                    let childCount = (case fs_readdir cfg fs itemPath of Inl e \<Rightarrow> 0 | Inr names \<Rightarrow> length names);
                        st' = (entries @ [\<lparr>te_path = itemRelPath, te_kind = IsDirectory,
                                            te_children = Some childCount, te_size = None\<rparr>], truncated)
                    in (case deeper of None \<Rightarrow> st' | Some walk \<Rightarrow> walk itemPath itemRelPath st')
                | Inr IsFile \<Rightarrow>
                    (entries @ [\<lparr>te_path = itemRelPath, te_kind = IsFile, te_children = None,
                                 te_size = Some (formatSize (fs_size cfg fs itemPath))\<rparr>], truncated)))"

primrec list_walk ::
    "nat \<Rightarrow> config \<Rightarrow> node \<Rightarrow> ignore_rule list \<Rightarrow> nat \<Rightarrow> string \<Rightarrow> string
     \<Rightarrow> tree_entry list \<times> bool \<Rightarrow> tree_entry list \<times> bool" where
  "list_walk 0 cfg fs rules maxFiles dir relDir st = (fst st, maxFiles \<le> length (fst st))"
| "list_walk (Suc levels) cfg fs rules maxFiles dir relDir st =
     (if maxFiles \<le> length (fst st) then (fst st, True)
      else
        (case fs_readdir cfg fs dir of
           Inl e \<Rightarrow> st
         | Inr items \<Rightarrow>
             fold (list_item (if 0 < levels then Some (list_walk levels cfg fs rules maxFiles) else None)
                     cfg fs rules maxFiles dir relDir)
               items st))"

definition listDirectory ::
    "engine \<Rightarrow> config \<Rightarrow> node \<Rightarrow> string \<Rightarrow> string \<Rightarrow> nat \<Rightarrow> exn + tree_entry list \<times> bool" where
  "listDirectory eng cfg fs absPath relPath depth =
     (case createIgnoreMatcherForDir eng cfg fs absPath of
        Inl e \<Rightarrow> Inl e
      | Inr rules \<Rightarrow>
          Inr (list_walk depth cfg fs rules 500 absPath (if relPath = ''.'' then [] else relPath)
                 ([], False)))"

definition readFile :: "config \<Rightarrow> node \<Rightarrow> string \<Rightarrow> string \<Rightarrow> string option \<Rightarrow> read_envelope" where
  "readFile cfg fs absPath relPath lines =
     (if \<not> isTextFile absPath then ReadFailure relPath (Some ''file'') NOT_TEXT None
      else
        (case fs_readFile cfg fs absPath of
           Inl e \<Rightarrow>
             if e = ENOENT then ReadFailure relPath (Some ''file'') NOT_FOUND None
             else ReadFailure relPath (Some ''file'') IO_ERROR None
         | Inr content \<Rightarrow>
             let checksum = generateChecksum content;
                 totalLines = length (split_lines content)
             in if truthy lines then
                  (case parseLineRange (or_else lines []) of
                     None \<Rightarrow> ReadFailure relPath (Some ''file'') INVALID_RANGE None
                   | Some parsedRange \<Rightarrow>
                       let extracted = extractLines content (range_start parsedRange) (range_end parsedRange)
                       in ReadFile relPath
                            \<lparr>fc_text = addLineNumbers (ex_text extracted) (actualStart extracted),
                             fc_checksum = checksum, fc_totalLines = totalLines,
                             fc_range = Some (actualStart extracted, actualEnd extracted),
                             fc_truncated = False\<rparr> None)
                else if 100 < totalLines then
                  ReadFile relPath
                    \<lparr>fc_text = addLineNumbers (ex_text (extractLines content 1 100)) 1,
                     fc_checksum = checksum, fc_totalLines = totalLines,
                     fc_range = Some (1, 100), fc_truncated = True\<rparr> None
                else
                  ReadFile relPath
                    \<lparr>fc_text = addLineNumbers content 1, fc_checksum = checksum,
                     fc_totalLines = totalLines, fc_range = None, fc_truncated = False\<rparr> None))"

text \<open>The matches of a file with their context lines; a line that does not exist prints as
  \<open>undefined\<close>.\<close>

definition numbered :: "nat \<Rightarrow> string list \<Rightarrow> string list" where
  "numbered first ls = map (\<lambda>(i, l). string_of_nat (first + i + 1) @ ''|'' @ l) (zip [0..<length ls] ls)"

definition with_context :: "string \<Rightarrow> string list \<Rightarrow> nat \<Rightarrow> match \<Rightarrow> search_match" where
  "with_context file lines ctx m =
     (let beforeStart = nat (max 0 (int (m_line m) - 1 - int ctx));
          afterEnd = min (length lines) (m_line m + ctx)
      in \<lparr>sm_file = file, sm_line = m_line m, sm_text = m_text m,
          sm_before = numbered beforeStart (slice lines (int beforeStart) (int (m_line m) - 1)),
          sm_match = [string_of_nat (m_line m) @ ''|''
                        @ (if 0 < m_line m \<and> m_line m \<le> length lines then lines ! (m_line m - 1)
                           else ''undefined'')],
          sm_after = numbered (m_line m) (slice lines (int (m_line m)) (int afterEnd))\<rparr>)"

text \<open>The presets (patterns.js). \<open>frontmatter\<close> has no \<open>g\<close> flag: its \<open>exec\<close> starts at the
  beginning each time.\<close>

definition bs :: string where
  "bs = [backslash]"

definition PRESET_PATTERNS :: "(string \<times> string \<times> string) list" where
  "PRESET_PATTERNS =
     [(''wikilinks'', bs @ ''['' @ bs @ ''[([^'' @ bs @ '']|]+)('' @ bs @ ''|[^'' @ bs @ '']]+)?''
                        @ bs @ '']'' @ bs @ '']'', ''g''),
      (''tags'', ''(?<='' @ bs @ ''s|^)#[a-zA-Z][a-zA-Z0-9_/]*'', ''gm''),
      (''tasks'', ''^'' @ bs @ ''s*-'' @ bs @ ''s*'' @ bs @ ''[([ xX])'' @ bs @ '']'' @ bs @ ''s+(.*)$'', ''gm''),
      (''tasks_open'', ''^'' @ bs @ ''s*-'' @ bs @ ''s*'' @ bs @ ''[ '' @ bs @ '']'' @ bs @ ''s+(.*)$'', ''gm''),
      (''tasks_done'', ''^'' @ bs @ ''s*-'' @ bs @ ''s*'' @ bs @ ''[[xX]'' @ bs @ '']'' @ bs @ ''s+(.*)$'', ''gm''),
      (''headings'', ''^(#{1,6})'' @ bs @ ''s+(.+)$'', ''gm''),
      (''codeblocks'', ''```['' @ bs @ ''s'' @ bs @ ''S]*?```'', ''g''),
      (''frontmatter'', ''^---'' @ bs @ ''n['' @ bs @ ''s'' @ bs @ ''S]*?'' @ bs @ ''n---'', ''m'')]"

text \<open>\<open>pattern in PRESET_PATTERNS\<close> also holds for the keys that the object inherits from
  \<open>Object.prototype\<close>. What is stored under such a key has neither a \<open>pattern\<close> nor a \<open>flags\<close>
  property, so the expression built for it is the one of the empty pattern, without flags.\<close>

definition OBJECT_PROTOTYPE_KEYS :: "string list" where
  "OBJECT_PROTOTYPE_KEYS =
     [''constructor'', ''__defineGetter__'', ''__defineSetter__'', ''hasOwnProperty'',
      ''__lookupGetter__'', ''__lookupSetter__'', ''isPrototypeOf'', ''propertyIsEnumerable'',
      ''toString'', ''valueOf'', ''__proto__'', ''toLocaleString'']"

definition isPresetPattern :: "string \<Rightarrow> bool" where
  "isPresetPattern pattern =
     (pattern \<in> set (map fst PRESET_PATTERNS) \<or> pattern \<in> set OBJECT_PROTOTYPE_KEYS)"

definition preset_entry :: "string \<Rightarrow> (string \<times> string) option" where
  "preset_entry preset =
     (case map_of PRESET_PATTERNS preset of
        Some entry \<Rightarrow> Some entry
      | None \<Rightarrow> if preset \<in> set OBJECT_PROTOTYPE_KEYS then Some ([], []) else None)"

fun preset_loop :: "nat \<Rightarrow> bool \<Rightarrow> regex \<Rightarrow> string \<Rightarrow> nat \<Rightarrow> match list" where
  "preset_loop 0 global rx content lastIndex = []"
| "preset_loop (Suc n) global rx content lastIndex =
     (case exec_at rx content (if global then lastIndex else 0) of
        None \<Rightarrow> []
      | Some (index, txt) \<Rightarrow>
          make_match content index txt
            # preset_loop n global rx content
                (let lastIndex' = (if global then index + length txt else lastIndex)
                 in if index = lastIndex' then lastIndex' + 1 else lastIndex'))"

definition findPresetMatches :: "engine \<Rightarrow> string \<Rightarrow> string \<Rightarrow> nat \<Rightarrow> exn + match list" where
  "findPresetMatches eng content preset maxMatches =
     (case preset_entry preset of
        None \<Rightarrow> Inl TypeError
      | Some (source, flags) \<Rightarrow>
          (case RegExp eng source flags of
             None \<Rightarrow> Inl SyntaxError
           | Some rx \<Rightarrow> Inr (preset_loop maxMatches (CHR ''g'' \<in> set flags) rx content 0)))"

record search_request =
  sq_patternMode :: "string option"
  sq_context :: "nat option"
  sq_depth :: nat
  sq_isPreset :: bool

definition file_matches ::
    "engine \<Rightarrow> string \<Rightarrow> string \<Rightarrow> search_request \<Rightarrow> nat \<Rightarrow> exn + match list" where
  "file_matches eng content searchPattern options maxMatches =
     (if sq_isPreset options \<and> isPresetPattern searchPattern
      then findPresetMatches eng content searchPattern maxMatches
      else findMatches eng content searchPattern (or_else (sq_patternMode options) ''literal'')
             (default_options\<lparr>po_maxMatches := Some maxMatches\<rparr>))"

definition searchInSingleFile ::
    "engine \<Rightarrow> config \<Rightarrow> node \<Rightarrow> string \<Rightarrow> string \<Rightarrow> string \<Rightarrow> search_request \<Rightarrow> exn + read_envelope" where
  "searchInSingleFile eng cfg fs absPath relPath searchPattern options =
     (let ctx = (case sq_context options of None \<Rightarrow> 3 | Some c \<Rightarrow> c)
      in if \<not> isTextFile absPath then Inr (ReadFailure relPath (Some ''search'') NOT_TEXT None)
         else
           (case fs_readFile cfg fs absPath of
              Inl e \<Rightarrow> Inl (IOError e)
            | Inr content \<Rightarrow>
                (case file_matches eng content searchPattern options 100 of
                   Inl e \<Rightarrow> Inl e
                 | Inr fileMatches \<Rightarrow>
                     let matches = map (with_context relPath (split_lines content) ctx) fileMatches
                     in Inr (ReadSearch relPath matches (length matches)))))"

text \<open>The walk of \<open>searchInDirectory\<close>: what a file or a directory throws is caught and the
  entry skipped.\<close>

definition grep_item ::
    "(string \<Rightarrow> string \<Rightarrow> search_match list \<Rightarrow> search_match list) \<Rightarrow> engine \<Rightarrow> config \<Rightarrow> node
     \<Rightarrow> ignore_rule list \<Rightarrow> string \<Rightarrow> search_request \<Rightarrow> nat \<Rightarrow> string \<Rightarrow> string \<Rightarrow> string
     \<Rightarrow> search_match list \<Rightarrow> search_match list" where
  "grep_item deeper eng cfg fs rules searchPattern options maxMatches dir relDir item matches =
     (if maxMatches \<le> length matches then matches
      else
        let itemPath = path_join [dir, item];
            itemRelPath = (if relDir \<noteq> [] then path_join [relDir, item] else item);
            ctx = (case sq_context options of None \<Rightarrow> 3 | Some c \<Rightarrow> c)
        in if isIgnored rules itemRelPath then matches
           else
             (case fs_stat cfg fs itemPath of
                Inl e \<Rightarrow> matches
              | Inr IsDirectory \<Rightarrow> deeper itemPath itemRelPath matches
              | Inr IsFile \<Rightarrow>
                  if \<not> isTextFile itemPath then matches
                  else
                    (case fs_readFile cfg fs itemPath of
                       Inl e \<Rightarrow> matches
                     | Inr content \<Rightarrow>
                         (case file_matches eng content searchPattern options
                                 (maxMatches - length matches) of
                            Inl e \<Rightarrow> matches
                          | Inr fileMatches \<Rightarrow>
                              matches @ map (with_context itemRelPath (split_lines content) ctx)
                                          fileMatches))))"

primrec grep_walk ::
    "nat \<Rightarrow> engine \<Rightarrow> config \<Rightarrow> node \<Rightarrow> ignore_rule list \<Rightarrow> string \<Rightarrow> search_request \<Rightarrow> nat
     \<Rightarrow> string \<Rightarrow> string \<Rightarrow> search_match list \<Rightarrow> search_match list" where
  "grep_walk 0 eng cfg fs rules searchPattern options maxMatches dir relDir matches = matches"
| "grep_walk (Suc levels) eng cfg fs rules searchPattern options maxMatches dir relDir matches =
     (if maxMatches \<le> length matches then matches
      else
        (case fs_readdir cfg fs dir of
           Inl e \<Rightarrow> matches
         | Inr items \<Rightarrow>
             fold (grep_item (grep_walk levels eng cfg fs rules searchPattern options maxMatches)
                     eng cfg fs rules searchPattern options maxMatches dir relDir)
               items matches))"

definition searchInDirectory ::
    "engine \<Rightarrow> config \<Rightarrow> node \<Rightarrow> string \<Rightarrow> string \<Rightarrow> string \<Rightarrow> search_request \<Rightarrow> exn + read_envelope" where
  "searchInDirectory eng cfg fs absPath relPath searchPattern options =
     (case createIgnoreMatcherForDir eng cfg fs absPath of
        Inl e \<Rightarrow> Inl e
      | Inr rules \<Rightarrow>
          let matches = grep_walk (sq_depth options) eng cfg fs rules searchPattern options 100
                          absPath (if relPath = ''.'' then [] else relPath) []
          in Inr (ReadSearch relPath matches (length matches)))"

text \<open>\<open>execute\<close>: what it does when \<open>stat\<close> fails, and what it does with the kind of the path
  that \<open>stat\<close> found. After a redirect the hint of the result names the path that was read
  instead; of the hints only this one is kept, as \<open>rr_autoResolved\<close> of a file that was read.
  A failure of that read shows the redirect in its \<open>path\<close>.\<close>

definition execute_missing ::
    "engine \<Rightarrow> config \<Rightarrow> node \<Rightarrow> read_args \<Rightarrow> string \<Rightarrow> exn + read_envelope" where
  "execute_missing eng cfg fs args vPath =
     (case tryAutoResolve eng cfg fs (getWorkspaceRoot cfg) vPath of
        Inl e \<Rightarrow> Inl e
      | Inr autoResolve \<Rightarrow>
          if ar_resolved autoResolve \<and> truthy (ar_resolvedPath autoResolve) then
            (let resolvedRel = or_else (ar_resolvedPath autoResolve) [];
                 resolvedPath = path_join [getWorkspaceRoot cfg, resolvedRel]
             in Inr (case readFile cfg fs resolvedPath resolvedRel (rd_lines args) of
                       ReadFile p c r \<Rightarrow> ReadFile p c (Some resolvedRel)
                     | other \<Rightarrow> other))
          else if ar_ambiguous autoResolve then
            Inr (ReadFailure vPath None AMBIGUOUS (Some (ar_candidates autoResolve)))
          else Inr (ReadFailure vPath (Some ''file'') NOT_FOUND None))"

definition execute_found ::
    "engine \<Rightarrow> config \<Rightarrow> node \<Rightarrow> read_args \<Rightarrow> string \<Rightarrow> string \<Rightarrow> kind \<Rightarrow> exn + read_envelope" where
  "execute_found eng cfg fs args absPath vPath stat =
     (let effectiveDepth =
            (case rd_depth args of
               Some d \<Rightarrow> d
             | None \<Rightarrow> if truthy (rd_find args) \<or> truthy (rd_pattern args) \<or> truthy (rd_preset args)
                       then 5 else 1);
          searchPattern = (case rd_pattern args of Some p \<Rightarrow> Some p | None \<Rightarrow> rd_preset args)
      in if truthy (rd_find args) then
           (case searchFiles eng cfg fs absPath (or_else (rd_find args) [])
                   \<lparr>so_maxResults = Some 50, so_includeDirectories = Some True,
                    so_maxDepth = Some effectiveDepth\<rparr> of
              Inl e \<Rightarrow> Inl e
            | Inr results \<Rightarrow>
                Inr (ReadDirectory vPath
                       (map (\<lambda>r. \<lparr>te_path = fe_relativePath (se_entry r),
                                   te_kind = (if fe_isDirectory (se_entry r) then IsDirectory else IsFile),
                                   te_children = None, te_size = None\<rparr>) results)
                       None))
         else if truthy searchPattern then
           (let options = \<lparr>sq_patternMode = rd_patternMode args, sq_context = rd_context args,
                           sq_depth = effectiveDepth, sq_isPreset = truthy (rd_preset args)\<rparr>
            in if stat = IsFile
               then searchInSingleFile eng cfg fs absPath vPath (or_else searchPattern []) options
               else searchInDirectory eng cfg fs absPath vPath (or_else searchPattern []) options)
         else if stat = IsDirectory then
           (case listDirectory eng cfg fs absPath vPath effectiveDepth of
              Inl e \<Rightarrow> Inl e
            | Inr (entries, truncated) \<Rightarrow> Inr (ReadDirectory vPath entries (Some truncated)))
         else Inr (readFile cfg fs absPath vPath (rd_lines args)))"

definition fs_read_execute :: "engine \<Rightarrow> config \<Rightarrow> node \<Rightarrow> read_args \<Rightarrow> exn + read_envelope" where
  "fs_read_execute eng cfg fs args =
     (case resolvePath cfg (rd_path args) of
        Inl err \<Rightarrow> Inr (ReadFailure (rd_path args) None INVALID_PATH None)
      | Inr resolved \<Rightarrow>
          (case fs_stat cfg fs (absolutePath resolved) of
             Inl e \<Rightarrow> execute_missing eng cfg fs args (virtualPath resolved)
           | Inr stat \<Rightarrow>
               execute_found eng cfg fs args (absolutePath resolved) (virtualPath resolved) stat))"

text \<open>An engine that compiles nothing beyond the modelled syntax, for concrete runs.\<close>

definition no_engine :: engine where
  "no_engine source flags = None"

section \<open>Concrete inputs\<close>

text \<open>A workspace at \<open>/ws\<close> with text files, two of them with the same name, a directory
  whose name ends in \<open>.md\<close>, a file the process may not read, and a file inside
  \<open>node_modules\<close>.\<close>

definition example_config :: config where
  "example_config = \<lparr>workspace_root = ''/ws'', process_cwd = ''/''\<rparr>"

definition example_fs :: node where
  "example_fs =
     Dir [(''ws'',
           Dir [(''a.md'', File ''one\<newline>two\<newline>three''),
                (''docs'', Dir [(''notes.md'', File ''n1'')]),
                (''src'', Dir [(''config.js'', File ''a'')]),
                (''lib'', Dir [(''config.js'', File ''b'')]),
                (''dir.md'', Dir []),
                (''locked.md'', NoAccess),
                (''node_modules'', Dir [(''only.md'', File ''q'')])])]"

definition example_write :: write_args where
  "example_write =
     \<lparr>arg_path = ''a.md'', arg_operation = ''update'', arg_action = None, arg_content = None,
      arg_lines = None, arg_pattern = None, arg_patternMode = None, arg_replaceAll = False,
      arg_checksum = None, arg_dryRun = False, arg_caseInsensitive = False\<rparr>"

definition example_read :: read_args where
  "example_read =
     \<lparr>rd_path = ''a.md'', rd_pattern = None, rd_preset = None, rd_patternMode = None,
      rd_find = None, rd_lines = None, rd_depth = None, rd_context = None\<rparr>"


section \<open>Applying a diff\<close>

text \<open>
  What the specification means by applying the hunks of a diff: the lines of a hunk that
  are not added (context and \<open>-\<close> lines) must be the lines of the old text at the position
  of its header, and they are replaced by the lines that are not removed (context and \<open>+\<close>
  lines). The hunks are applied from the last to the first, so that the positions of the
  earlier ones still hold.
\<close>

definition hunk_side :: "char \<Rightarrow> hunk \<Rightarrow> string list" where
  "hunk_side other h = map tl (filter (\<lambda>l. l \<noteq> [] \<and> hd l \<noteq> other) (hunkLines h))"

definition applyHunk :: "hunk \<Rightarrow> string list \<Rightarrow> string list option" where
  "applyHunk h lines =
     (let removed = hunk_side CHR ''+'' h;
          added = hunk_side CHR ''-'' h;
          start = hunkStartOld h
      in if take (length removed) (drop start lines) = removed
         then Some (take start lines @ added @ drop (start + length removed) lines)
         else None)"

fun applyHunks :: "hunk list \<Rightarrow> string list \<Rightarrow> string list option" where
  "applyHunks [] lines = Some lines"
| "applyHunks (h # hs) lines =
     (case applyHunks hs lines of None \<Rightarrow> None | Some lines' \<Rightarrow> applyHunk h lines')"

definition long_text :: string where
  "long_text = replicate 120 newline"

definition long_fs :: node where
  "long_fs = Dir [(''ws'', Dir [(''long.txt'', File long_text)])]"

section \<open>Occurrences of a text\<close>

text \<open>The positions at which a text occurs in a content, in ascending order, and what it
  means that no two occurrences overlap.\<close>

definition occurs_at :: "string \<Rightarrow> string \<Rightarrow> nat \<Rightarrow> bool" where
  "occurs_at pat content i = (take (length pat) (drop i content) = pat)"

definition occurrences :: "string \<Rightarrow> string \<Rightarrow> nat list" where
  "occurrences pat content = filter (occurs_at pat content) [0..<Suc (length content)]"

definition non_overlapping :: "string \<Rightarrow> nat list \<Rightarrow> bool" where
  "non_overlapping pat positions =
     (\<forall>i\<in>set positions. \<forall>j\<in>set positions. i < j \<longrightarrow> i + length pat \<le> j)"

text \<open>The line of a position in a content, counted from 1: one more than the line breaks
  before it. And the content with a replacement put in the place of the \<open>len\<close> characters at
  each of the given positions (ascending, \<open>len\<close> apart or more), read from position \<open>from\<close>
  on: the text between the positions is kept.\<close>

definition line_number :: "string \<Rightarrow> nat \<Rightarrow> nat" where
  "line_number content i = Suc (length (filter (\<lambda>c. c = newline) (take i content)))"

fun substituted :: "nat \<Rightarrow> string \<Rightarrow> nat \<Rightarrow> nat list \<Rightarrow> string \<Rightarrow> string" where
  "substituted len replacement from [] content = drop from content"
| "substituted len replacement from (p # ps) content =
     take (p - from) (drop from content) @ replacement
       @ substituted len replacement (p + len) ps content"

text \<open>The expression that the source of an escaped text parses to.\<close>

fun literal_re :: "string \<Rightarrow> re" where
  "literal_re [] = Empty"
| "literal_re (c # cs) = Seq (Lit c) (literal_re cs)"

section \<open>The files under a directory\<close>













section \<open>Verified properties\<close>

subsection \<open>Checksums\<close>

lemma length_hex_word: "length (hex_word w) = 8"
  by (simp add: hex_word_def)

lemma length_hex_digest: "length (hex_digest st) = 64"
  by (simp add: hex_digest_def length_hex_word split: prod.splits)

lemma hex_digit_is_hex: "is_hex_char (hex_digit n)"
proof -
  have "n mod 16 < length ''0123456789abcdef''" by simp
  then show ?thesis unfolding hex_digit_def is_hex_char_def by (rule nth_mem)
qed

lemma hex_word_chars: "list_all is_hex_char (hex_word w)"
  by (simp add: hex_word_def list_all_iff hex_digit_is_hex)

lemma hex_digest_chars: "list_all is_hex_char (hex_digest st)"
  by (simp add: hex_digest_def hex_word_chars split: prod.splits)

lemma length_generateChecksum: "length (generateChecksum content) = 12"
  by (simp add: generateChecksum_def slice_def slice_index_def Let_def length_hex_digest)

lemma generateChecksum_chars: "list_all is_hex_char (generateChecksum content)"
proof -
  have "set (generateChecksum content) \<subseteq> set (hex_digest (sha256 (utf8_encode content)))"
    by (auto simp add: generateChecksum_def slice_def Let_def dest: in_set_takeD in_set_dropD)
  then show ?thesis using hex_digest_chars [of "sha256 (utf8_encode content)"]
    unfolding list_all_iff by blast
qed

text \<open>
  C3. A checksum verifies against the content it was made from; it is twelve lower-case
  hexadecimal characters; and it depends on the content only through its UTF-8 bytes, so
  equal bytes give equal checksums.
\<close>

theorem checksum_roundtrip:
  "verifyChecksum content (generateChecksum content)
   \<and> length (generateChecksum content) = 12
   \<and> list_all is_hex_char (generateChecksum content)
   \<and> (utf8_encode content = utf8_encode content' \<longrightarrow>
        generateChecksum content = generateChecksum content')"
  using length_generateChecksum generateChecksum_chars
  by (simp add: verifyChecksum_def generateChecksum_def)

theorem checksum_roundtrip_witness:
  "utf8_encode ''a\<newline>b'' = utf8_encode ''a\<newline>b''
   \<and> verifyChecksum ''a\<newline>b'' (generateChecksum ''a\<newline>b'')
   \<and> length (generateChecksum ''a\<newline>b'') = 12"
  using checksum_roundtrip [of "''a\<newline>b''" "''a\<newline>b''"] by blast

subsection \<open>Path resolution\<close>

lemma split_on_nonempty: "split_on P s \<noteq> []"
  by (induction s) (auto split: list.splits)

lemma whitespace_not_separator: "is_whitespace c \<Longrightarrow> \<not> is_separator c"
  by (auto simp add: is_whitespace_def is_separator_def)

lemma whitespace_not_dot: "is_whitespace c \<Longrightarrow> c \<noteq> CHR ''.''"
  by (auto simp add: is_whitespace_def)

lemma split_on_snoc:
  "\<not> P c \<Longrightarrow> split_on P (cs @ [c]) = butlast (split_on P cs) @ [last (split_on P cs) @ [c]]"
proof (induction cs)
  case Nil
  then show ?case by simp
next
  case (Cons a cs)
  obtain piece pieces where sp: "split_on P cs = piece # pieces"
    using split_on_nonempty [of P cs] by (cases "split_on P cs") auto
  from Cons sp show ?case
    by (auto simp add: split_on_nonempty split: list.splits)
qed

lemma hasEscapeAttempt_drop_first:
  assumes "is_whitespace c" and "hasEscapeAttempt (c # cs)"
  shows "hasEscapeAttempt cs"
proof -
  obtain piece pieces where sp: "split_on is_separator cs = piece # pieces"
    using split_on_nonempty [of is_separator cs] by (cases "split_on is_separator cs") auto
  from assms sp whitespace_not_separator [of c] whitespace_not_dot [of c]
  show ?thesis by (auto simp add: hasEscapeAttempt_def)
qed

lemma hasEscapeAttempt_drop_last:
  assumes "is_whitespace c" and "hasEscapeAttempt (cs @ [c])"
  shows "hasEscapeAttempt cs"
proof -
  let ?X = "split_on is_separator cs"
  have ne: "?X \<noteq> []" by (rule split_on_nonempty)
  have "''..'' \<in> set (butlast ?X @ [last ?X @ [c]])"
    using assms split_on_snoc [of is_separator c cs] whitespace_not_separator [of c]
    by (simp add: hasEscapeAttempt_def)
  then consider "''..'' \<in> set (butlast ?X)" | "''..'' = last ?X @ [c]" by auto
  then show ?thesis
  proof cases
    case 1
    then show ?thesis by (auto simp add: hasEscapeAttempt_def dest: in_set_butlastD)
  next
    case 2
    then have "c = CHR ''.''"
      by (metis last_snoc last.simps list.distinct(1))
    with assms(1) whitespace_not_dot show ?thesis by blast
  qed
qed

lemma hasEscapeAttempt_dropWhile:
  "hasEscapeAttempt s \<Longrightarrow> hasEscapeAttempt (dropWhile is_whitespace s)"
  by (induction s) (auto dest: hasEscapeAttempt_drop_first)

lemma hasEscapeAttempt_trim_end:
  "hasEscapeAttempt (rev t) \<Longrightarrow> hasEscapeAttempt (rev (dropWhile is_whitespace t))"
  by (induction t) (auto dest: hasEscapeAttempt_drop_last)

lemma hasEscapeAttempt_trim: "hasEscapeAttempt s \<Longrightarrow> hasEscapeAttempt (trim s)"
  unfolding trim_def
  using hasEscapeAttempt_trim_end [of "rev (dropWhile is_whitespace s)"]
  by (simp add: hasEscapeAttempt_dropWhile)

lemma trim_end_keeps:
  assumes "a \<noteq> []" and "\<not> is_whitespace (last a)"
  shows "rev (dropWhile is_whitespace (rev (a @ b))) = a @ rev (dropWhile is_whitespace (rev b))"
proof -
  have hd: "dropWhile is_whitespace (rev a) = rev a"
    using assms by (cases "rev a") (auto simp add: last_rev [symmetric] hd_rev)
  show ?thesis
    by (auto simp add: dropWhile_append hd dropWhile_eq_Nil_conv)
qed

lemma trim_keeps_prefix:
  assumes "a \<noteq> []" and "\<not> is_whitespace (hd a)" and "\<not> is_whitespace (last a)"
  shows "trim (a @ b) = a @ rev (dropWhile is_whitespace (rev b))"
proof -
  have "dropWhile is_whitespace (a @ b) = a @ b"
    using assms by (cases a) auto
  then show ?thesis unfolding trim_def using trim_end_keeps [OF assms(1,3)] by simp
qed

lemma slash_not_whitespace: "\<not> is_whitespace CHR ''/''"
  by (simp add: is_whitespace_def)

lemma letter_not_whitespace: "is_letter c \<Longrightarrow> \<not> is_whitespace c"
  by (auto simp add: is_whitespace_def is_letter_def Let_def)

lemma isAbsolutePath_trim: "isAbsolutePath s \<Longrightarrow> isAbsolutePath (trim s)"
proof (cases "startsWith s ''/''")
  case True
  then obtain rest where s: "s = ''/'' @ rest" by (auto simp add: startsWith_def prefix_def)
  have "trim s = ''/'' @ rev (dropWhile is_whitespace (rev rest))"
    unfolding s by (rule trim_keeps_prefix) (simp_all add: slash_not_whitespace)
  then show ?thesis by (simp add: isAbsolutePath_def startsWith_def)
next
  case False
  assume abs: "isAbsolutePath s"
  with False obtain d sep rest where s: "s = [d, CHR '':'', sep] @ rest"
    and d: "is_letter d" and sep: "is_separator sep"
    by (auto simp add: isAbsolutePath_def split: list.splits)
  have "trim s = [d, CHR '':'', sep] @ rev (dropWhile is_whitespace (rev rest))"
    unfolding s using d sep whitespace_not_separator [of sep]
    by (intro trim_keeps_prefix) (auto simp add: letter_not_whitespace)
  with d sep show ?thesis by (simp add: isAbsolutePath_def)
qed

lemma resolvePath_rejects:
  "isAbsolutePath p \<or> hasEscapeAttempt p \<Longrightarrow> \<exists>e. resolvePath cfg p = Inl e"
  using isAbsolutePath_trim [of p] hasEscapeAttempt_trim [of p]
  by (auto simp add: resolvePath_def Let_def)

lemma resolvePath_contained:
  "resolvePath cfg p = Inr r \<Longrightarrow>
     absolutePath r = getWorkspaceRoot cfg
     \<or> startsWith (absolutePath r) (getWorkspaceRoot cfg @ path_sep)"
  by (auto simp add: resolvePath_def Let_def split: if_splits)

text \<open>
  C1. A path with a \<open>..\<close> segment, a leading \<open>/\<close> or a drive prefix is refused by
  \<open>resolvePath\<close>, and both tools answer INVALID_PATH for it without touching a file; the
  absolute path of every accepted input is the workspace root or starts with the root
  followed by the separator.
\<close>

theorem resolvePath_containment:
  "(isAbsolutePath p \<or> hasEscapeAttempt p \<longrightarrow>
      (\<exists>e. resolvePath cfg p = Inl e)
      \<and> fs_write_execute eng cfg fs (wargs\<lparr>arg_path := p\<rparr>)
          = (Inr (WriteFailure p None None INVALID_PATH), fs)
      \<and> fs_read_execute eng cfg fs (rargs\<lparr>rd_path := p\<rparr>)
          = Inr (ReadFailure p None INVALID_PATH None))
   \<and> (\<forall>r. resolvePath cfg p = Inr r \<longrightarrow>
          absolutePath r = getWorkspaceRoot cfg
          \<or> startsWith (absolutePath r) (getWorkspaceRoot cfg @ path_sep))"
proof (intro conjI impI allI)
  assume bad: "isAbsolutePath p \<or> hasEscapeAttempt p"
  then obtain e where e: "resolvePath cfg p = Inl e"
    using resolvePath_rejects by blast
  show "\<exists>e. resolvePath cfg p = Inl e" using e by blast
  show "fs_write_execute eng cfg fs (wargs\<lparr>arg_path := p\<rparr>)
          = (Inr (WriteFailure p None None INVALID_PATH), fs)"
    by (simp add: fs_write_execute_def e)
  show "fs_read_execute eng cfg fs (rargs\<lparr>rd_path := p\<rparr>)
          = Inr (ReadFailure p None INVALID_PATH None)"
    by (simp add: fs_read_execute_def e)
next
  fix r
  assume "resolvePath cfg p = Inr r"
  then show "absolutePath r = getWorkspaceRoot cfg
             \<or> startsWith (absolutePath r) (getWorkspaceRoot cfg @ path_sep)"
    by (rule resolvePath_contained)
qed

theorem resolvePath_containment_witness:
  "hasEscapeAttempt ''docs/../../etc''
   \<and> fs_read_execute no_engine example_config example_fs (example_read\<lparr>rd_path := ''docs/../../etc''\<rparr>)
       = Inr (ReadFailure ''docs/../../etc'' None INVALID_PATH None)
   \<and> isAbsolutePath ''/etc/passwd''
   \<and> fs_write_execute no_engine example_config example_fs (example_write\<lparr>arg_path := ''/etc/passwd''\<rparr>)
       = (Inr (WriteFailure ''/etc/passwd'' None None INVALID_PATH), example_fs)
   \<and> resolvePath example_config ''docs/notes.md''
       = Inr \<lparr>absolutePath = ''/ws/docs/notes.md'', relativePath = ''docs/notes.md'',
              virtualPath = ''docs/notes.md''\<rparr>
   \<and> startsWith ''/ws/docs/notes.md'' (getWorkspaceRoot example_config @ path_sep)"
proof -
  have esc: "hasEscapeAttempt ''docs/../../etc''" by code_simp
  have abs: "isAbsolutePath ''/etc/passwd''" by code_simp
  have ok: "resolvePath example_config ''docs/notes.md''
              = Inr \<lparr>absolutePath = ''/ws/docs/notes.md'', relativePath = ''docs/notes.md'',
                     virtualPath = ''docs/notes.md''\<rparr>"
    by code_simp
  have not_root: "''/ws/docs/notes.md'' \<noteq> getWorkspaceRoot example_config" by code_simp
  from resolvePath_containment [of "''docs/../../etc''" example_config no_engine example_fs
         example_write example_read] esc
  have r1: "fs_read_execute no_engine example_config example_fs (example_read\<lparr>rd_path := ''docs/../../etc''\<rparr>)
              = Inr (ReadFailure ''docs/../../etc'' None INVALID_PATH None)"
    by blast
  from resolvePath_containment [of "''/etc/passwd''" example_config no_engine example_fs
         example_write example_read] abs
  have r2: "fs_write_execute no_engine example_config example_fs (example_write\<lparr>arg_path := ''/etc/passwd''\<rparr>)
              = (Inr (WriteFailure ''/etc/passwd'' None None INVALID_PATH), example_fs)"
    by blast
  from resolvePath_containment [of "''docs/notes.md''" example_config no_engine example_fs
         example_write example_read] ok not_root
  have r3: "startsWith ''/ws/docs/notes.md'' (getWorkspaceRoot example_config @ path_sep)"
    by (metis resolved_path.select_convs(1))
  from esc abs ok r1 r2 r3 show ?thesis by blast
qed

subsection \<open>Line zero\<close>

lemma write_existing:
  "lookup_node n ss = Inr (File old) \<Longrightarrow>
     \<exists>n'. write_node n ss c = Inr n' \<and> lookup_node n' ss = Inr (File c)"
  "lookup_entries es s ss = Inr (File old) \<Longrightarrow>
     \<exists>es'. write_entries es s ss c = Inr es' \<and> lookup_entries es' s ss = Inr (File c)"
proof (induction n ss and es s ss rule: lookup_node_lookup_entries.induct)
  case (1 n)
  then show ?case by simp
next
  case (2 c s ss)
  then show ?case by simp
next
  case (3 s ss)
  then show ?case by simp
next
  case (4 es s ss)
  then show ?case by fastforce
next
  case (5 s ss)
  then show ?case by simp
next
  case (6 e es s ss)
  then show ?case by (cases "fst e = s") fastforce+
qed

lemma fs_writeFile_existing:
  assumes "fs_readFile cfg fs p = Inr old"
  shows "\<exists>fs'. fs_writeFile cfg fs p c = Inr fs' \<and> fs_readFile cfg fs' p = Inr c"
proof -
  from assms have "lookup_node fs (fs_segments cfg p) = Inr (File old)"
    by (auto simp add: fs_readFile_def split: sum.splits node.splits)
  from write_existing(1) [OF this, of c] show ?thesis
    by (auto simp add: fs_writeFile_def fs_readFile_def)
qed

lemma fileExists_readable: "fs_readFile cfg fs p = Inr c \<Longrightarrow> fileExists cfg fs p"
  by (auto simp add: fs_readFile_def fileExists_def fs_access_def split: sum.splits)

lemma split_lines_nonempty: "split_lines s \<noteq> []"
  by (simp add: split_lines_def split_on_nonempty)

lemma deleteLines_zero:
  "deleteLines content 0 0 = join_lines (butlast (split_lines content) @ split_lines content)"
proof -
  have "nat (max 0 (int n - 1)) = n - 1" for n :: nat by arith
  then show ?thesis
    by (simp add: deleteLines_def slice_def slice_from_def slice_index_def Let_def butlast_conv_take)
qed

lemma parseLineRange_zero: "parseLineRange ''0'' = Some \<lparr>range_start = 0, range_end = 0\<rparr>"
  by code_simp

text \<open>
  C10. \<open>parseLineRange\<close> accepts \<open>0\<close> as the range from 0 to 0; an update of an existing
  text file with \<open>lines = "0"\<close> and the action \<open>delete_lines\<close> is not refused: it succeeds and
  writes all lines but the last, followed by all the lines of the file.
\<close>

theorem delete_line_zero_duplicates:
  "parseLineRange ''0'' = Some \<lparr>range_start = 0, range_end = 0\<rparr>
   \<and> (fs_readFile cfg fs absPath = Inr content \<and> isTextFile absPath
        \<and> arg_action input = Some ''delete_lines'' \<and> arg_lines input = Some ''0''
        \<and> \<not> truthy (arg_checksum input) \<and> \<not> arg_dryRun input \<longrightarrow>
      (\<exists>fs'. updateFile eng cfg fs absPath relPath input
               = (Inr (WriteSuccess relPath ''update'' True ''deleted_lines'' (Some 1)
                        (Some (generateChecksum
                                 (join_lines (butlast (split_lines content) @ split_lines content))))
                        (Some (generateDiff content
                                 (join_lines (butlast (split_lines content) @ split_lines content))
                                 relPath))),
                  fs')
             \<and> fs_readFile cfg fs' absPath
                 = Inr (join_lines (butlast (split_lines content) @ split_lines content))))"
proof (intro conjI impI)
  show "parseLineRange ''0'' = Some \<lparr>range_start = 0, range_end = 0\<rparr>"
    by (rule parseLineRange_zero)
next
  let ?new = "join_lines (butlast (split_lines content) @ split_lines content)"
  assume a: "fs_readFile cfg fs absPath = Inr content \<and> isTextFile absPath
        \<and> arg_action input = Some ''delete_lines'' \<and> arg_lines input = Some ''0''
        \<and> \<not> truthy (arg_checksum input) \<and> \<not> arg_dryRun input"
  then obtain fs' where w: "fs_writeFile cfg fs absPath ?new = Inr fs'"
    and r: "fs_readFile cfg fs' absPath = Inr ?new"
    using fs_writeFile_existing by blast
  have applied: "applyAction cfg fs absPath relPath input content 0 0 None
          = (Inr (WriteSuccess relPath ''update'' True ''deleted_lines'' (Some 1)
                   (Some (generateChecksum ?new)) (Some (generateDiff content ?new relPath))), fs')"
    using a w by (simp add: applyAction_def or_else_def deleteLines_zero Let_def)
  have upd: "updateFile eng cfg fs absPath relPath input
          = applyAction cfg fs absPath relPath input content 0 0 None"
    using a fileExists_readable [of cfg fs absPath content]
    by (simp add: updateFile_def truthy_def or_else_def parseLineRange_zero Let_def)
  show "\<exists>fs'. updateFile eng cfg fs absPath relPath input
               = (Inr (WriteSuccess relPath ''update'' True ''deleted_lines'' (Some 1)
                        (Some (generateChecksum ?new)) (Some (generateDiff content ?new relPath))),
                  fs')
             \<and> fs_readFile cfg fs' absPath = Inr ?new"
    by (rule exI [of _ fs']) (simp add: upd applied r)
qed

theorem delete_line_zero_duplicates_witness:
  "\<exists>fs'. updateFile no_engine example_config example_fs ''/ws/a.md'' ''a.md''
            (example_write\<lparr>arg_action := Some ''delete_lines'', arg_lines := Some ''0''\<rparr>)
          = (Inr (WriteSuccess ''a.md'' ''update'' True ''deleted_lines'' (Some 1)
                   (Some (generateChecksum ''one\<newline>two\<newline>one\<newline>two\<newline>three''))
                   (Some (generateDiff ''one\<newline>two\<newline>three''
                            ''one\<newline>two\<newline>one\<newline>two\<newline>three'' ''a.md''))),
             fs')
        \<and> fs_readFile example_config fs' ''/ws/a.md'' = Inr ''one\<newline>two\<newline>one\<newline>two\<newline>three''"
proof -
  have rd: "fs_readFile example_config example_fs ''/ws/a.md'' = Inr ''one\<newline>two\<newline>three''"
    by code_simp
  have istext: "isTextFile ''/ws/a.md''" by code_simp
  have new: "join_lines (butlast (split_lines ''one\<newline>two\<newline>three'') @ split_lines ''one\<newline>two\<newline>three'')
               = ''one\<newline>two\<newline>one\<newline>two\<newline>three''"
    by code_simp
  have args: "arg_action (example_write\<lparr>arg_action := Some ''delete_lines'', arg_lines := Some ''0''\<rparr>)
                = Some ''delete_lines''
              \<and> arg_lines (example_write\<lparr>arg_action := Some ''delete_lines'', arg_lines := Some ''0''\<rparr>)
                = Some ''0''
              \<and> \<not> truthy (arg_checksum (example_write\<lparr>arg_action := Some ''delete_lines'', arg_lines := Some ''0''\<rparr>))
              \<and> \<not> arg_dryRun (example_write\<lparr>arg_action := Some ''delete_lines'', arg_lines := Some ''0''\<rparr>)"
    by (simp add: example_write_def truthy_def)
  from delete_line_zero_duplicates [of example_config example_fs "''/ws/a.md''" "''one\<newline>two\<newline>three''"
         "example_write\<lparr>arg_action := Some ''delete_lines'', arg_lines := Some ''0''\<rparr>"
         no_engine "''a.md''"] rd istext args
  show ?thesis unfolding new by blast
qed

subsection \<open>The checksum guard of an update\<close>






subsection \<open>Reading a file\<close>

lemma split_on_pieces: "x \<in> set (split_on P s) \<Longrightarrow> c \<in> set x \<Longrightarrow> \<not> P c"
proof (induction s arbitrary: x)
  case Nil
  then show ?case by simp
next
  case (Cons a s)
  obtain piece pieces where sp: "split_on P s = piece # pieces"
    using split_on_nonempty [of P s] by (cases "split_on P s") auto
  show ?case
  proof (cases "P a")
    case True
    with Cons show ?thesis by auto
  next
    case False
    with Cons.prems sp have "x = a # piece \<or> x \<in> set pieces" by auto
    then show ?thesis
    proof
      assume "x = a # piece"
      with Cons.prems(2) False Cons.IH [of piece] sp show ?thesis by auto
    next
      assume "x \<in> set pieces"
      with Cons.IH [of x] Cons.prems(2) sp show ?thesis by auto
    qed
  qed
qed

lemma split_on_piece_then_sep:
  "\<forall>c\<in>set x. \<not> P c \<Longrightarrow> P sep \<Longrightarrow> split_on P (x @ sep # rest) = x # split_on P rest"
  by (induction x) auto

lemma split_on_single: "\<forall>c\<in>set x. \<not> P c \<Longrightarrow> split_on P x = [x]"
  by (induction x) auto

lemma split_on_join:
  "xs \<noteq> [] \<Longrightarrow> \<forall>x\<in>set xs. \<forall>c\<in>set x. \<not> P c \<Longrightarrow> P sep \<Longrightarrow> split_on P (join [sep] xs) = xs"
proof (induction xs rule: induct_list012)
  case 1
  then show ?case by simp
next
  case (2 x)
  then show ?case by (simp add: split_on_single)
next
  case (3 x y zs)
  then show ?case by (simp add: split_on_piece_then_sep)
qed

lemma split_join_lines:
  "xs \<noteq> [] \<Longrightarrow> \<forall>x\<in>set xs. newline \<notin> set x \<Longrightarrow> split_lines (join_lines xs) = xs"
  unfolding split_lines_def join_lines_def
  by (rule split_on_join) auto

lemma split_lines_no_newline: "x \<in> set (split_lines s) \<Longrightarrow> newline \<notin> set x"
  unfolding split_lines_def using split_on_pieces [of x "\<lambda>c. c = newline" s newline] by blast

lemma digit_char_not_newline: "d < 10 \<Longrightarrow> digit_char d \<noteq> newline"
proof
  assume d: "d < 10" and "digit_char d = newline"
  then have "(of_char (digit_char d) :: nat) = of_char newline" by simp
  then show False using d by (simp add: digit_char_def newline_def)
qed

lemma string_of_nat_no_newline: "newline \<notin> set (string_of_nat n)"
proof (induction n rule: string_of_nat.induct)
  case (1 n)
  show ?case
  proof (cases "n < 10")
    case True
    then show ?thesis using digit_char_not_newline [of n] by (subst string_of_nat.simps) auto
  next
    case False
    have "n mod 10 < 10" by simp
    with False 1 digit_char_not_newline [of "n mod 10"] show ?thesis
      by (subst string_of_nat.simps) auto
  qed
qed

lemma padStart_no_newline: "newline \<notin> set s \<Longrightarrow> newline \<notin> set (padStart w s)"
  by (auto simp add: padStart_def newline_def)

lemma map_zip_upt: "map f (zip [0..<length xs] xs) = map (\<lambda>i. f (i, xs ! i)) [0..<length xs]"
  by (rule nth_equalityI) auto

lemma addLineNumbers_lines:
  assumes "ls \<noteq> []" and "\<forall>x\<in>set ls. newline \<notin> set x"
  shows "split_lines (addLineNumbers (join_lines ls) 1)
           = map (\<lambda>i. padStart (length (string_of_nat (length ls))) (string_of_nat (i + 1)) @ ''|'' @ ls ! i)
               [0..<length ls]"
proof -
  have sp: "split_lines (join_lines ls) = ls" using assms by (rule split_join_lines)
  let ?numbered = "map (\<lambda>i. padStart (length (string_of_nat (length ls))) (string_of_nat (i + 1)) @ ''|'' @ ls ! i)
               [0..<length ls]"
  have eq: "addLineNumbers (join_lines ls) 1 = join_lines ?numbered"
    by (simp add: addLineNumbers_def sp Let_def map_zip_upt)
  have "newline \<notin> set x" if "x \<in> set ?numbered" for x
  proof -
    from that obtain i where i: "i < length ls"
      and x: "x = padStart (length (string_of_nat (length ls))) (string_of_nat (i + 1)) @ ''|'' @ ls ! i"
      by auto
    have bar: "newline \<notin> set ''|''" by (simp add: newline_def)
    have line: "newline \<notin> set (ls ! i)" using assms(2) i by simp
    have num: "newline \<notin> set (padStart (length (string_of_nat (length ls))) (string_of_nat (i + 1)))"
      by (intro padStart_no_newline string_of_nat_no_newline)
    show ?thesis unfolding x set_append using bar line num by blast
  qed
  then have "\<forall>x\<in>set ?numbered. newline \<notin> set x" by blast
  moreover have "?numbered \<noteq> []" using assms(1) by simp
  ultimately show ?thesis unfolding eq by (intro split_join_lines) auto
qed

lemma join_split_lines: "join_lines (split_lines s) = s"
  unfolding join_lines_def split_lines_def
proof (induction s)
  case Nil
  then show ?case by simp
next
  case (Cons a s)
  obtain piece pieces where sp: "split_on (\<lambda>c. c = newline) s = piece # pieces"
    using split_on_nonempty [of "\<lambda>c. c = newline" s] by (cases "split_on (\<lambda>c. c = newline) s") auto
  with Cons show ?case by (cases pieces) auto
qed

text \<open>
  C8. A read of a text file without a line range: with more than 100 lines the result is
  marked truncated, its range is 1 to 100 and its text is exactly the first 100 lines, each
  behind its number; with 100 lines or fewer it is not truncated, has no range, and its
  text is every line of the file behind its number.
\<close>

theorem readFile_preview:
  "isTextFile absPath \<and> fs_readFile cfg fs absPath = Inr content \<and> \<not> truthy lines \<longrightarrow>
     (100 < length (split_lines content) \<longrightarrow>
        (\<exists>fc. readFile cfg fs absPath relPath lines = ReadFile relPath fc None
              \<and> fc_truncated fc \<and> fc_range fc = Some (1, 100)
              \<and> fc_totalLines fc = length (split_lines content)
              \<and> split_lines (fc_text fc)
                  = map (\<lambda>i. padStart 3 (string_of_nat (i + 1)) @ ''|'' @ split_lines content ! i)
                      [0..<100]))
     \<and> (length (split_lines content) \<le> 100 \<longrightarrow>
          (\<exists>fc. readFile cfg fs absPath relPath lines = ReadFile relPath fc None
                \<and> \<not> fc_truncated fc \<and> fc_range fc = None
                \<and> fc_totalLines fc = length (split_lines content)
                \<and> split_lines (fc_text fc)
                    = map (\<lambda>i. padStart (length (string_of_nat (length (split_lines content))))
                                 (string_of_nat (i + 1)) @ ''|'' @ split_lines content ! i)
                        [0..<length (split_lines content)]))"
proof (intro impI conjI)
  let ?ls = "split_lines content"
  assume a: "isTextFile absPath \<and> fs_readFile cfg fs absPath = Inr content \<and> \<not> truthy lines"
  assume long: "100 < length ?ls"
  let ?first = "take 100 ?ls"
  have ne: "?first \<noteq> []" using long by auto
  have clean: "\<forall>x\<in>set ?first. newline \<notin> set x"
    using split_lines_no_newline by (auto dest: in_set_takeD)
  have len: "length ?first = 100" using long by simp
  have w: "length (string_of_nat 100) = 3" by code_simp
  have ex: "ex_text (extractLines content (Suc 0) 100) = join_lines ?first"
    using long by (simp add: extractLines_def slice_def slice_index_def Let_def)
  have "split_lines (addLineNumbers (join_lines ?first) 1)
          = map (\<lambda>i. padStart 3 (string_of_nat (i + 1)) @ ''|'' @ ?first ! i) [0..<100]"
    using addLineNumbers_lines [OF ne clean] unfolding len w .
  also have "\<dots> = map (\<lambda>i. padStart 3 (string_of_nat (i + 1)) @ ''|'' @ ?ls ! i) [0..<100]"
    by (rule map_cong) auto
  finally have numbered: "split_lines (addLineNumbers (join_lines ?first) 1)
          = map (\<lambda>i. padStart 3 (string_of_nat (i + 1)) @ ''|'' @ ?ls ! i) [0..<100]" .
  show "\<exists>fc. readFile cfg fs absPath relPath lines = ReadFile relPath fc None
              \<and> fc_truncated fc \<and> fc_range fc = Some (1, 100)
              \<and> fc_totalLines fc = length ?ls
              \<and> split_lines (fc_text fc)
                  = map (\<lambda>i. padStart 3 (string_of_nat (i + 1)) @ ''|'' @ ?ls ! i) [0..<100]"
    using a long numbered by (simp add: readFile_def Let_def ex)
next
  let ?ls = "split_lines content"
  assume a: "isTextFile absPath \<and> fs_readFile cfg fs absPath = Inr content \<and> \<not> truthy lines"
  assume short: "length ?ls \<le> 100"
  have ne: "?ls \<noteq> []" by (rule split_lines_nonempty)
  have clean: "\<forall>x\<in>set ?ls. newline \<notin> set x" using split_lines_no_newline by blast
  have numbered: "split_lines (addLineNumbers content 1)
          = map (\<lambda>i. padStart (length (string_of_nat (length ?ls))) (string_of_nat (i + 1)) @ ''|'' @ ?ls ! i)
              [0..<length ?ls]"
    using addLineNumbers_lines [OF ne clean] by (simp only: join_split_lines)
  show "\<exists>fc. readFile cfg fs absPath relPath lines = ReadFile relPath fc None
                \<and> \<not> fc_truncated fc \<and> fc_range fc = None
                \<and> fc_totalLines fc = length ?ls
                \<and> split_lines (fc_text fc)
                    = map (\<lambda>i. padStart (length (string_of_nat (length ?ls)))
                                 (string_of_nat (i + 1)) @ ''|'' @ ?ls ! i)
                        [0..<length ?ls]"
    using a short numbered by (simp add: readFile_def Let_def)
qed

theorem readFile_preview_witness:
  "(\<exists>fc. readFile example_config long_fs ''/ws/long.txt'' ''long.txt'' None
            = ReadFile ''long.txt'' fc None
         \<and> fc_truncated fc \<and> fc_range fc = Some (1, 100) \<and> fc_totalLines fc = 121
         \<and> length (split_lines (fc_text fc)) = 100)
   \<and> (\<exists>fc. readFile example_config example_fs ''/ws/a.md'' ''a.md'' None = ReadFile ''a.md'' fc None
         \<and> \<not> fc_truncated fc \<and> fc_range fc = None
         \<and> split_lines (fc_text fc) = [''1|one'', ''2|two'', ''3|three''])"
proof
  have istext: "isTextFile ''/ws/long.txt''" by code_simp
  have rd: "fs_readFile example_config long_fs ''/ws/long.txt'' = Inr long_text" by code_simp
  have n: "length (split_lines long_text) = 121" by code_simp
  have absent: "\<not> truthy None" by (simp add: truthy_def)
  from readFile_preview [of "''/ws/long.txt''" example_config long_fs long_text None "''long.txt''"]
       istext rd absent n
  obtain fc where "readFile example_config long_fs ''/ws/long.txt'' ''long.txt'' None
                     = ReadFile ''long.txt'' fc None"
    and "fc_truncated fc" and "fc_range fc = Some (1, 100)" and "fc_totalLines fc = 121"
    and "split_lines (fc_text fc)
           = map (\<lambda>i. padStart 3 (string_of_nat (i + 1)) @ ''|'' @ split_lines long_text ! i) [0..<100]"
    by auto
  then show "\<exists>fc. readFile example_config long_fs ''/ws/long.txt'' ''long.txt'' None
            = ReadFile ''long.txt'' fc None
         \<and> fc_truncated fc \<and> fc_range fc = Some (1, 100) \<and> fc_totalLines fc = 121
         \<and> length (split_lines (fc_text fc)) = 100"
    by (intro exI [of _ fc]) simp
next
  have istext: "isTextFile ''/ws/a.md''" by code_simp
  have rd: "fs_readFile example_config example_fs ''/ws/a.md'' = Inr ''one\<newline>two\<newline>three''"
    by code_simp
  have n: "length (split_lines ''one\<newline>two\<newline>three'') \<le> 100" by code_simp
  have absent: "\<not> truthy None" by (simp add: truthy_def)
  have numbered: "map (\<lambda>i. padStart (length (string_of_nat (length (split_lines ''one\<newline>two\<newline>three''))))
                           (string_of_nat (i + 1)) @ ''|'' @ split_lines ''one\<newline>two\<newline>three'' ! i)
                    [0..<length (split_lines ''one\<newline>two\<newline>three'')]
                  = [''1|one'', ''2|two'', ''3|three'']"
    by code_simp
  from readFile_preview [of "''/ws/a.md''" example_config example_fs "''one\<newline>two\<newline>three''" None "''a.md''"]
       istext rd absent n
  show "\<exists>fc. readFile example_config example_fs ''/ws/a.md'' ''a.md'' None = ReadFile ''a.md'' fc None
         \<and> \<not> fc_truncated fc \<and> fc_range fc = None
         \<and> split_lines (fc_text fc) = [''1|one'', ''2|two'', ''3|three'']"
    unfolding numbered by auto
qed

subsection \<open>Runs that show a defect\<close>

text \<open>
  C5. The diff of two four-line texts that differ in their first line has one hunk, and
  that hunk has neither a removed nor an added line: the changed line is printed as
  context, because the loop leaves at the third equal line without stepping over it.
  Applying the hunk to the old text gives the old text back, not the new one.
\<close>

theorem generateDiff_drops_change:
  "generateDiff ''x\<newline>c1\<newline>c2\<newline>c3'' ''y\<newline>c1\<newline>c2\<newline>c3'' ''file''
     = ''--- a/file\<newline>+++ b/file\<newline>@@ -1,3 +1,3 @@\<newline> x\<newline> c1\<newline> c2''
   \<and> applyHunks (diff_hunks (split_lines ''x\<newline>c1\<newline>c2\<newline>c3'')
                   (split_lines ''y\<newline>c1\<newline>c2\<newline>c3'') 0 0 [])
         (split_lines ''x\<newline>c1\<newline>c2\<newline>c3'')
       = Some (split_lines ''x\<newline>c1\<newline>c2\<newline>c3'')
   \<and> split_lines ''x\<newline>c1\<newline>c2\<newline>c3'' \<noteq> split_lines ''y\<newline>c1\<newline>c2\<newline>c3''"
  by code_simp

text \<open>
  C6. The public functions reject instead of answering with an error envelope when a file
  system call outside a \<open>try\<close> fails: \<open>fs_write\<close> deleting a path that is a directory,
  \<open>fs_write\<close> updating a file that cannot be read, and \<open>fs_read\<close> searching in such a file.
  Reading the same file with \<open>fs_read\<close> answers IO_ERROR, as \<open>readFile\<close> catches the error.
\<close>

theorem execute_rejects_on_io_error:
  "fs_write_execute no_engine example_config example_fs
       (example_write\<lparr>arg_path := ''dir.md'', arg_operation := ''delete''\<rparr>)
     = (Inl (IOError EISDIR), example_fs)
   \<and> fs_write_execute no_engine example_config example_fs
         (example_write\<lparr>arg_path := ''locked.md'', arg_action := Some ''replace'',
                         arg_lines := Some ''1'', arg_content := Some ''x''\<rparr>)
       = (Inl (IOError EACCES), example_fs)
   \<and> fs_read_execute no_engine example_config example_fs
         (example_read\<lparr>rd_path := ''locked.md'', rd_pattern := Some ''TODO''\<rparr>)
       = Inl (IOError EACCES)
   \<and> fs_read_execute no_engine example_config example_fs (example_read\<lparr>rd_path := ''locked.md''\<rparr>)
       = Inr (ReadFailure ''locked.md'' (Some ''file'') IO_ERROR None)"
  by code_simp

text \<open>
  C7. With the rules \<open>*.log\<close> and \<open>!keep.log\<close>, the path \<open>keep.log\<close> is ignored. The
  expression of a rule is built from the whole pattern, the \<open>!\<close> included, so the negated
  rule (the eighth, after the six default ones) matches only a segment that starts with
  \<open>!\<close>; the pattern without the \<open>!\<close> does match the path.
\<close>

theorem negated_rule_does_not_match:
  "(case createIgnoreMatcher no_engine [''*.log'', ''!keep.log''] of
      Inl e \<Rightarrow> None
    | Inr rules \<Rightarrow>
        Some (map rule_negated rules,
              regex_test (rule_regex (rules ! 6)) ''keep.log'',
              regex_test (rule_regex (rules ! 7)) ''keep.log'',
              regex_test (rule_regex (rules ! 7)) ''dir/!keep.log'',
              isIgnored rules ''keep.log''))
     = Some ([False, False, False, False, False, False, False, True], True, False, True, True)
   \<and> (case globToRegex no_engine ''keep.log'' of
         None \<Rightarrow> None
       | Some rx \<Rightarrow> Some (regex_test rx ''keep.log'')) = Some True"
  by code_simp

subsection \<open>Matches of a literal pattern\<close>

lemma tokenize_escaped: "tokenize (escapeRegex pat) = Some (map TChar pat)"
proof (induction pat)
  case Nil
  then show ?case by (simp add: escapeRegex_def)
next
  case (Cons c cs)
  have rest: "tokenize (escapeRegex cs) = Some (map TChar cs)" by (rule Cons.IH)
  show ?case
  proof (cases "is_syntax_char c")
    case True
    then have "escapeRegex (c # cs) = backslash # c # escapeRegex cs"
      by (simp add: escapeRegex_def)
    then show ?thesis using True rest
      by (simp add: escape_token_def cons_token_def)
  next
    case False
    then have esc: "escapeRegex (c # cs) = c # escapeRegex cs"
      by (simp add: escapeRegex_def)
    from False have plain: "c \<noteq> backslash" "c \<noteq> CHR ''[''" "c \<noteq> CHR ''(''"
      "simple_token c = Some (TChar c)"
      by (auto simp add: is_syntax_char_def simple_token_def)
    show ?thesis unfolding esc using plain rest by (simp add: cons_token_def)
  qed
qed

lemma quantify_literal: "quantify a (map TChar cs) = Some (a, map TChar cs)"
  by (cases cs) (simp_all add: quantify_def)

lemma parse_seq_literal:
  "length cs < n \<Longrightarrow> parse_seq n (map TChar cs) = Some (literal_re cs, [])"
proof (induction cs arbitrary: n)
  case Nil
  then show ?case by (cases n) simp_all
next
  case (Cons c cs)
  then obtain m where n: "n = Suc (Suc m)" and m: "length cs < Suc m"
    by (cases n; cases "n - 1") auto
  have "parse_seq (Suc m) (map TChar cs) = Some (literal_re cs, [])"
    using m by (rule Cons.IH)
  then show ?case unfolding n by (simp add: quantify_literal)
qed

lemma parse_regex_escaped: "parse_regex (escapeRegex pat) = Some (literal_re pat)"
proof -
  have seq: "parse_seq (3 * length pat + 2) (map TChar pat) = Some (literal_re pat, [])"
    by (rule parse_seq_literal) simp
  have fuel: "3 * length (map TChar pat) + 3 = Suc (3 * length pat + 2)" by simp
  have "parse_alt (3 * length (map TChar pat) + 3) (map TChar pat) = Some (literal_re pat, [])"
    unfolding fuel using seq by simp
  then show ?thesis
    unfolding parse_regex_def tokenize_escaped by simp
qed

lemma ends_literal:
  "i \<le> length s \<Longrightarrow>
   ends False False (literal_re pat) s i = (if occurs_at pat s i then [i + length pat] else [])"
proof (induction pat arbitrary: i)
  case Nil
  then show ?case by (simp add: occurs_at_def)
next
  case (Cons c cs)
  show ?case
  proof (cases "i < length s \<and> s ! i = c")
    case True
    then have d: "drop i s = c # drop (Suc i) s" by (metis Cons_nth_drop_Suc)
    from True have "Suc i \<le> length s" by simp
    from Cons.IH [OF this] True d show ?thesis
      by (simp add: same_char_def occurs_at_def)
  next
    case False
    then have "\<not> occurs_at (c # cs) s i"
      by (cases "i < length s") (auto simp add: occurs_at_def Cons_nth_drop_Suc [symmetric])
    with False show ?thesis by (auto simp add: same_char_def)
  qed
qed

lemma find_SomeD: "find P xs = Some x \<Longrightarrow> P x \<and> x \<in> set xs"
  by (induction xs) (auto split: if_splits)

lemma re_exec_literal:
  "re_exec False False (literal_re pat) content from
     = (case find (occurs_at pat content) [from..<Suc (length content)] of
          None \<Rightarrow> None
        | Some i \<Rightarrow> Some (i, pat))"
proof -
  have same: "(ends False False (literal_re pat) content i \<noteq> []) = occurs_at pat content i"
    if "i \<in> set [from..<Suc (length content)]" for i
  proof -
    from that have "i \<le> length content" by auto
    then show ?thesis by (simp add: ends_literal)
  qed
  have f: "find (\<lambda>i. ends False False (literal_re pat) content i \<noteq> []) [from..<Suc (length content)]
             = find (occurs_at pat content) [from..<Suc (length content)]"
    using same by (intro find_cong) auto
  show ?thesis
  proof (cases "find (occurs_at pat content) [from..<Suc (length content)]")
    case None
    show ?thesis unfolding re_exec_def f None by simp
  next
    case (Some i)
    from find_SomeD [OF Some] have occ: "occurs_at pat content i" and le: "i \<le> length content"
      by (auto simp del: upt_Suc)
    from occ have tk: "take (length pat) (drop i content) = pat" by (simp add: occurs_at_def)
    show ?thesis unfolding re_exec_def f Some using occ le tk by (simp add: ends_literal)
  qed
qed

lemma buildPattern_literal:
  "buildPattern eng pat ''literal'' (default_options\<lparr>po_maxMatches := m\<rparr>)
     = Some (re_exec False False (literal_re pat))"
  by (simp add: buildPattern_def pattern_source_def default_options_def RegExp_def
        parse_regex_escaped Let_def)


lemma find_upt_Some:
  "find P [l..<u] = Some i \<Longrightarrow> l \<le> i \<and> i < u \<and> P i \<and> (\<forall>j. l \<le> j \<and> j < i \<longrightarrow> \<not> P j)"
proof (induction "u - l" arbitrary: l)
  case 0
  then show ?case by simp
next
  case (Suc n)
  then have lu: "l < u" by simp
  then have unfold: "[l..<u] = l # [Suc l..<u]" by (rule upt_conv_Cons)
  show ?case
  proof (cases "P l")
    case True
    with Suc.prems unfold lu show ?thesis by auto
  next
    case False
    with Suc.prems unfold have "find P [Suc l..<u] = Some i" by simp
    moreover from Suc.hyps(2) have "n = u - Suc l" by simp
    ultimately have "Suc l \<le> i \<and> i < u \<and> P i \<and> (\<forall>j. Suc l \<le> j \<and> j < i \<longrightarrow> \<not> P j)"
      by (rule Suc.hyps(1) [rotated])
    with False show ?thesis by (metis Suc_leD le_antisym not_less_eq_eq)
  qed
qed

lemma filter_upt_skip:
  assumes "a \<le> b" and "\<forall>j. a \<le> j \<and> j < b \<and> j < u \<longrightarrow> \<not> P j"
  shows "filter P [a..<u] = filter P [b..<u]"
proof (cases "b \<le> u")
  case True
  with assms(1) have "[a..<u] = [a..<b] @ [b..<u]"
    by (metis le_Suc_ex upt_add_eq_append)
  moreover have "filter P [a..<b] = []"
    using assms(2) True by (auto simp add: filter_empty_conv)
  ultimately show ?thesis by simp
next
  case False
  then have e: "[b..<u] = []" by simp
  have f: "filter P [a..<u] = []"
    using assms(2) False by (auto simp add: filter_empty_conv)
  show ?thesis unfolding e f by simp
qed

lemma filter_upt_first:
  assumes "find P [l..<u] = Some i"
  shows "filter P [l..<u] = i # filter P [Suc i..<u]"
proof -
  from find_upt_Some [OF assms]
  have li: "l \<le> i" and iu: "i < u" and Pi: "P i" and before: "\<forall>j. l \<le> j \<and> j < i \<longrightarrow> \<not> P j"
    by auto
  have "filter P [l..<u] = filter P [i..<u]"
    using li before by (intro filter_upt_skip) auto
  also have "[i..<u] = i # [Suc i..<u]" using iu by (rule upt_conv_Cons)
  finally show ?thesis using Pi by simp
qed

lemma match_loop_literal:
  assumes "non_overlapping pat (occurrences pat content)"
  shows "match_loop n (re_exec False False (literal_re pat)) content l
           = map (\<lambda>i. make_match content i pat)
               (take n (filter (occurs_at pat content) [l..<Suc (length content)]))"
proof (induction n arbitrary: l)
  case 0
  then show ?case by simp
next
  case (Suc n)
  let ?P = "occurs_at pat content"
  let ?u = "Suc (length content)"
  show ?case
  proof (cases "find ?P [l..<?u]")
    case None
    then have "filter ?P [l..<?u] = []"
      by (auto simp add: find_None_iff filter_empty_conv simp del: upt_Suc)
    moreover have "exec_at (re_exec False False (literal_re pat)) content l = None"
      using None by (simp add: exec_at_def re_exec_literal del: upt_Suc)
    ultimately show ?thesis by (simp del: upt_Suc)
  next
    case (Some i)
    from find_upt_Some [OF Some] have li: "l \<le> i" and iu: "i \<le> length content" and Pi: "?P i"
      by auto
    have ex: "exec_at (re_exec False False (literal_re pat)) content l = Some (i, pat)"
      using Some li iu by (simp add: exec_at_def re_exec_literal del: upt_Suc)
    let ?next = "if i = i + length pat then i + length pat + 1 else i + length pat"
    have i_occ: "i \<in> set (occurrences pat content)"
      using Pi iu by (simp add: occurrences_def del: upt_Suc)
    have gap: "\<forall>j. Suc i \<le> j \<and> j < ?next \<and> j < ?u \<longrightarrow> \<not> ?P j"
    proof (intro allI impI notI)
      fix j
      assume j: "Suc i \<le> j \<and> j < ?next \<and> j < ?u" and Pj: "?P j"
      then have "j \<in> set (occurrences pat content)"
        by (simp add: occurrences_def del: upt_Suc)
      with assms i_occ j have "i + length pat \<le> j"
        unfolding non_overlapping_def by (meson Suc_le_lessD)
      with j show False by (auto split: if_splits)
    qed
    have nx: "Suc i \<le> ?next" by (cases pat) auto
    have "filter ?P [Suc i..<?u] = filter ?P [?next..<?u]"
      using nx gap by (rule filter_upt_skip)
    with filter_upt_first [OF Some]
    have split: "filter ?P [l..<?u] = i # filter ?P [?next..<?u]" by simp
    show ?thesis
      unfolding split using ex Suc.IH [of ?next] by (simp add: Let_def del: upt_Suc)
  qed
qed

lemma findMatches_literal:
  assumes "non_overlapping pat (occurrences pat content)"
  shows "findMatches eng content pat ''literal'' (default_options\<lparr>po_maxMatches := Some m\<rparr>)
           = Inr (map (\<lambda>i. make_match content i pat) (take m (occurrences pat content)))"
  using match_loop_literal [OF assms, of m 0]
  by (simp add: findMatches_def buildPattern_literal occurrences_def del: upt_Suc)

lemma length_split_on: "length (split_on P s) = Suc (length (filter P s))"
  by (induction s) (auto split: list.splits)

lemma m_line_make_match: "m_line (make_match content i txt) = line_number content i"
  by (simp add: make_match_def Let_def slice_def slice_index_def split_lines_def length_split_on
        line_number_def min_def take_all)

lemma occurs_at_bound:
  assumes "occurs_at pat content i" and "i \<le> length content"
  shows "i + length pat \<le> length content"
proof -
  from assms(1) have "length (take (length pat) (drop i content)) = length pat"
    by (simp add: occurs_at_def)
  then have "length pat \<le> length content - i" by (simp add: min_def split: if_splits)
  with assms(2) show ?thesis by simp
qed

lemma replace_match_literal:
  assumes "p + length pat \<le> length content"
  shows "replace_match replacement (make_match content' p pat)
           (take (p + length pat) content @ rest)
         = take p content @ replacement @ rest"
  using assms
  by (simp add: replace_match_def make_match_def Let_def slice_def slice_from_def slice_index_def
        min_def del: of_nat_add)

lemma fold_replace_literal:
  assumes "sorted_wrt (\<lambda>i j. i + length pat \<le> j) ps"
    and "\<forall>p\<in>set ps. from \<le> p \<and> p + length pat \<le> length content"
    and "from \<le> length content"
  shows "foldr (replace_match replacement) (map (\<lambda>i. make_match content i pat) ps) content
           = take from content @ substituted (length pat) replacement from ps content"
  using assms
proof (induction ps arbitrary: "from")
  case Nil
  then show ?case by simp
next
  case (Cons p ps)
  from Cons.prems have p: "from \<le> p" "p + length pat \<le> length content" by auto
  have rest: "foldr (replace_match replacement) (map (\<lambda>i. make_match content i pat) ps) content
                = take (p + length pat) content
                    @ substituted (length pat) replacement (p + length pat) ps content"
    using Cons.prems p by (intro Cons.IH) auto
  have tk: "take from content @ take (p - from) (drop from content) = take p content"
    using p by (metis le_add_diff_inverse take_add)
  show ?case
    using replace_match_literal [OF p(2), of replacement content] tk
    by (simp add: rest)
qed

lemma occurrences_sorted:
  assumes "non_overlapping pat (occurrences pat content)"
  shows "sorted_wrt (\<lambda>i j. i + length pat \<le> j) (take n (occurrences pat content))"
proof -
  have "sorted_wrt (<) (occurrences pat content)"
    unfolding occurrences_def by (rule sorted_wrt_filter) (simp del: upt_Suc)
  moreover have "i + length pat \<le> j"
    if "i \<in> set (occurrences pat content)" "j \<in> set (occurrences pat content)" "i < j" for i j
    using assms that unfolding non_overlapping_def by blast
  ultimately have "sorted_wrt (\<lambda>i j. i + length pat \<le> j) (occurrences pat content)"
    by (rule sorted_wrt_mono_rel [rotated])
  then show ?thesis by (rule sorted_wrt_take)
qed

text \<open>
  C4, as amended. When a text occurs at least twice in a content and no two occurrences
  overlap, \<open>findUniqueMatch\<close> in literal mode answers \<open>multiple\<close> with the number of
  occurrences capped at 10 (it searches with \<open>maxMatches: 10\<close>) and the lines of the first
  ten. \<open>replaceAllMatches\<close> returns the content with the replacement in the place of each of
  the first 10000 occurrences and everything between them kept, the number of occurrences
  capped at 10000, and the lines of the replaced occurrences, ascending and without
  repetition.
\<close>

theorem literal_matches_counted:
  "2 \<le> length (occurrences pat content) \<and> non_overlapping pat (occurrences pat content) \<longrightarrow>
     findUniqueMatch eng content pat ''literal'' default_options
       = Inr (Multiple (min (length (occurrences pat content)) 10)
                (map (line_number content) (take 10 (occurrences pat content))))
     \<and> replaceAllMatches eng content pat replacement ''literal'' default_options
       = Inr \<lparr>rr_newContent =
                 substituted (length pat) replacement 0 (take 10000 (occurrences pat content)) content,
              rr_count = min (length (occurrences pat content)) 10000,
              rr_affectedLines =
                 sort (remdups (map (line_number content) (take 10000 (occurrences pat content))))\<rparr>"
proof (intro impI conjI)
  assume a: "2 \<le> length (occurrences pat content) \<and> non_overlapping pat (occurrences pat content)"
  then have no: "non_overlapping pat (occurrences pat content)" by simp
  have opts: "default_options\<lparr>po_maxMatches := Some m\<rparr> = default_options\<lparr>po_maxMatches := Some m\<rparr>" for m
    by simp
  have lines: "map m_line (map (\<lambda>i. make_match content i pat) ps) = map (line_number content) ps" for ps
    by (simp add: m_line_make_match)
  have two: "1 < length (take m (occurrences pat content))" if "2 \<le> m" for m
    using a that by simp
  show "findUniqueMatch eng content pat ''literal'' default_options
       = Inr (Multiple (min (length (occurrences pat content)) 10)
                (map (line_number content) (take 10 (occurrences pat content))))"
    unfolding findUniqueMatch_def findMatches_literal [OF no] sum.case
    using two [of 10] by (auto simp add: lines simp del: map_map)
  let ?ps = "take 10000 (occurrences pat content)"
  have bound: "\<forall>p\<in>set ?ps. 0 \<le> p \<and> p + length pat \<le> length content"
  proof
    fix p assume "p \<in> set ?ps"
    then have "p \<in> set (occurrences pat content)" by (rule in_set_takeD)
    then have "occurs_at pat content p" and "p \<le> length content"
      by (auto simp add: occurrences_def simp del: upt_Suc)
    then show "0 \<le> p \<and> p + length pat \<le> length content" by (simp add: occurs_at_bound)
  qed
  have new: "fold (replace_match replacement) (rev (map (\<lambda>i. make_match content i pat) ?ps)) content
               = substituted (length pat) replacement 0 ?ps content"
    using fold_replace_literal [OF occurrences_sorted [OF no, of 10000] bound, of replacement]
    by (simp add: foldr_conv_fold)
  show "replaceAllMatches eng content pat replacement ''literal'' default_options
       = Inr \<lparr>rr_newContent = substituted (length pat) replacement 0 ?ps content,
              rr_count = min (length (occurrences pat content)) 10000,
              rr_affectedLines = sort (remdups (map (line_number content) ?ps))\<rparr>"
    unfolding replaceAllMatches_def findMatches_literal [OF no] sum.case
    using two [of 10000] by (auto simp add: new lines simp del: map_map)
qed

theorem literal_matches_counted_witness:
  "length (occurrences ''ab'' ''ab ab\<newline>ab'') = 3
   \<and> non_overlapping ''ab'' (occurrences ''ab'' ''ab ab\<newline>ab'')
   \<and> findUniqueMatch no_engine ''ab ab\<newline>ab'' ''ab'' ''literal'' default_options
       = Inr (Multiple 3 [1, 1, 2])
   \<and> replaceAllMatches no_engine ''ab ab\<newline>ab'' ''ab'' ''X'' ''literal'' default_options
       = Inr \<lparr>rr_newContent = ''X X\<newline>X'', rr_count = 3, rr_affectedLines = [1, 2]\<rparr>"
proof -
  have k: "length (occurrences ''ab'' ''ab ab\<newline>ab'') = 3" by code_simp
  have no: "non_overlapping ''ab'' (occurrences ''ab'' ''ab ab\<newline>ab'')" by code_simp
  have ls: "map (line_number ''ab ab\<newline>ab'') (take 10 (occurrences ''ab'' ''ab ab\<newline>ab''))
              = [1, 1, 2]"
    by code_simp
  have new: "substituted (length ''ab'') ''X'' 0 (take 10000 (occurrences ''ab'' ''ab ab\<newline>ab''))
               ''ab ab\<newline>ab'' = ''X X\<newline>X''"
    by code_simp
  have affected: "sort (remdups (map (line_number ''ab ab\<newline>ab'')
                                  (take 10000 (occurrences ''ab'' ''ab ab\<newline>ab''))))
                    = [1, 2]"
    by code_simp
  from literal_matches_counted [of "''ab''" "''ab ab\<newline>ab''" no_engine "''X''"] k no
  show ?thesis unfolding ls new affected by simp
qed

theorem literal_matches_counterexample:
  "length (occurrences ''a'' ''aaaaaaaaaaa'') = 11
   \<and> findUniqueMatch no_engine ''aaaaaaaaaaa'' ''a'' ''literal'' default_options
       = Inr (Multiple 10 [1, 1, 1, 1, 1, 1, 1, 1, 1, 1])
   \<and> length (occurrences ''aa'' ''aaa'') = 2
   \<and> findUniqueMatch no_engine ''aaa'' ''aa'' ''literal'' default_options
       = Inr (Unique \<lparr>m_index = 0, m_text = ''aa'', m_line = 1, m_column = 1\<rparr>)
   \<and> map_sum id rr_count (replaceAllMatches no_engine ''aaa'' ''aa'' ''b'' ''literal'' default_options)
       = Inr 1"
  by code_simp

subsection \<open>A path that does not exist\<close>














































end
